theory Spec2Isabelle
  imports Main "HOL-Library.AList" "HOL-Library.Sublist" "HOL-Library.Char_ord"
    "HOL-Library.List_Lexorder"
begin

section \<open>The local backend of the runner (runner/internal/backend/local/backend.go)\<close>

text \<open>
  The facade \<open>Local\<close> binds a storage, a credential store and a job state to one runner.
  Its methods are embedded as functions that take the facade and the world (the file
  system with the record of the calls made on it) and return the Go result together with
  the new world. A Go \<open>(value, error)\<close> pair is a pair with an \<open>error option\<close>
  (\<open>None\<close> is \<open>nil\<close>), or a sum where exactly one of the two is set; a run-time panic
  is a result of its own.
\<close>

subsection \<open>Errors, panics, results\<close>

text \<open>
  Go error values. \<open>NotFound\<close>, \<open>IO\<close> and \<open>Corrupt\<close> are the three kinds of the
  error taxonomy; \<open>Wrap\<close> is \<open>gerrors.Wrap\<close>, which keeps the error it wraps.
\<close>

datatype error = NotFound | IO | Corrupt | Wrap error

datatype panic = NilDereference | SliceBounds

datatype 'a outcome = Returns 'a | Panics panic

subsection \<open>Strings and paths (Go standard library)\<close>

text \<open>\<open>strings.HasPrefix(s, p)\<close>.\<close>

definition HasPrefix :: "string \<Rightarrow> string \<Rightarrow> bool" where
  "HasPrefix s p = prefix p s"

text \<open>
  \<open>strings.ReplaceAll(s, old, new)\<close>: every non-overlapping occurrence of \<open>old\<close>,
  found from left to right, is replaced. For an empty \<open>old\<close> Go inserts \<open>new\<close> before
  every character and at the end (characters are bytes here).
\<close>

function ReplaceAll :: "string \<Rightarrow> string \<Rightarrow> string \<Rightarrow> string" where
  "ReplaceAll s old new =
     (if old = [] then new @ concat (map (\<lambda>c. c # new) s)
      else (case s of
              [] \<Rightarrow> []
            | c # cs \<Rightarrow>
                if prefix old s then new @ ReplaceAll (drop (length old) s) old new
                else c # ReplaceAll cs old new))"
  by pat_completeness auto
termination
  by (relation "measure (\<lambda>(s, old, new). length s)") (auto simp: neq_Nil_conv)

declare ReplaceAll.simps [simp del]

text \<open>\<open>strings.Join(elems, sep)\<close>.\<close>

fun strings_Join :: "string list \<Rightarrow> string \<Rightarrow> string" where
  "strings_Join [] sep = []"
| "strings_Join [e] sep = e"
| "strings_Join (e # es) sep = e @ sep @ strings_Join es sep"

text \<open>The elements of a path between its separators.\<close>

fun split_path :: "string \<Rightarrow> string list" where
  "split_path [] = [[]]"
| "split_path (c # cs) =
     (if c = CHR ''/'' then [] # split_path cs
      else (case split_path cs of
              [] \<Rightarrow> [[c]]
            | e # es \<Rightarrow> (c # e) # es))"

text \<open>
  The element loop of \<open>filepath.Clean\<close>: empty elements and \<open>.\<close> are dropped, \<open>..\<close>
  removes the element before it, is dropped at the root, and is kept at the start of a
  relative path. \<open>out\<close> holds the elements kept so far, last first.
\<close>

fun clean_elems :: "bool \<Rightarrow> string list \<Rightarrow> string list \<Rightarrow> string list" where
  "clean_elems rooted [] out = rev out"
| "clean_elems rooted (e # es) out =
     (if e = [] \<or> e = ''.'' then clean_elems rooted es out
      else if e = ''..'' then
        (case out of
           [] \<Rightarrow> if rooted then clean_elems rooted es [] else clean_elems rooted es [e]
         | t # ts \<Rightarrow> if t = ''..'' then clean_elems rooted es (e # out)
                     else clean_elems rooted es ts)
      else clean_elems rooted es (e # out))"

definition filepath_Clean :: "string \<Rightarrow> string" where
  "filepath_Clean p =
     (if p = [] then ''.''
      else let rooted = (hd p = CHR ''/'');
               body = strings_Join (clean_elems rooted (split_path p) []) ''/''
           in if rooted then CHR ''/'' # body
              else if body = [] then ''.'' else body)"

text \<open>
  \<open>filepath.Join\<close> (and \<open>path.Join\<close>, the same on a slash-separated system): empty
  elements are ignored, the rest joined by the separator and cleaned; with no element
  left the result is empty.
\<close>

definition filepath_Join :: "string list \<Rightarrow> string" where
  "filepath_Join elems =
     (let es = filter (\<lambda>e. e \<noteq> []) elems
      in if es = [] then [] else filepath_Clean (strings_Join es ''/''))"

subsection \<open>The world: a file system and the calls made on it\<close>

datatype node = Regular string | Directory

text \<open>
  A Go slice: the elements up to its length, and what its backing array holds between
  its length and its capacity.
\<close>

record 'a slice =
  elems :: "'a list"
  spare :: "'a list"

text \<open>\<open>s[:n]\<close>: panics when \<open>n\<close> exceeds the capacity, not the length.\<close>

definition reslice_upto :: "'a slice \<Rightarrow> nat \<Rightarrow> 'a slice option" where
  "reslice_upto s n =
     (if n \<le> length (elems s) + length (spare s)
      then Some \<lparr>elems = take n (elems s @ spare s), spare = drop n (elems s @ spare s)\<rparr>
      else None)"

text \<open>
  The calls the backend makes on the operating system, on its storage and on its
  credential store.
\<close>

datatype call =
    CStat string
  | COpen string
  | CReadAll string
  | CReadDir string
  | CReadFile string
  | CPrintln error
  | CGetFile string
  | CPutFile string string
  | CListFile string
  | CRenameFile string string
  | CFetchSecret string "string \<rightharpoonup> string"

text \<open>
  \<open>nodes\<close> maps an absolute path to what is there; \<open>faults\<close> gives the calls on which
  the device fails and the error it reports; \<open>log\<close> is the sequence of calls made.
\<close>

record world =
  nodes :: "(string \<times> node) list"
  faults :: "call \<Rightarrow> error option"
  log :: "call list"

definition record_call :: "call \<Rightarrow> world \<Rightarrow> world" where
  "record_call c w = w\<lparr>log := log w @ [c]\<rparr>"

definition lookup :: "world \<Rightarrow> string \<Rightarrow> node option" where
  "lookup w p = map_of (nodes w) p"

text \<open>\<open>os.Stat\<close>: the result tells whether the path is a directory.\<close>

definition os_Stat :: "string \<Rightarrow> world \<Rightarrow> (error + bool) \<times> world" where
  "os_Stat p w =
     (case faults w (CStat p) of
        Some e \<Rightarrow> Inl e
      | None \<Rightarrow>
          (case lookup w p of
             None \<Rightarrow> Inl NotFound
           | Some n \<Rightarrow> Inr (n = Directory)),
      record_call (CStat p) w)"

text \<open>\<open>os.Open\<close>: the open file is named by its path.\<close>

definition os_Open :: "string \<Rightarrow> world \<Rightarrow> (error + string) \<times> world" where
  "os_Open p w =
     (case faults w (COpen p) of
        Some e \<Rightarrow> Inl e
      | None \<Rightarrow>
          (case lookup w p of
             None \<Rightarrow> Inl NotFound
           | Some n \<Rightarrow> Inr p),
      record_call (COpen p) w)"

text \<open>\<open>io.ReadAll\<close> on an open file; reading a directory is an error.\<close>

definition io_ReadAll :: "string \<Rightarrow> world \<Rightarrow> (error + string) \<times> world" where
  "io_ReadAll file w =
     (case faults w (CReadAll file) of
        Some e \<Rightarrow> Inl e
      | None \<Rightarrow>
          (case lookup w file of
             Some (Regular body) \<Rightarrow> Inr body
           | _ \<Rightarrow> Inl IO),
      record_call (CReadAll file) w)"

text \<open>\<open>ioutil.ReadFile\<close>.\<close>

definition ioutil_ReadFile :: "string \<Rightarrow> world \<Rightarrow> (error + string) \<times> world" where
  "ioutil_ReadFile p w =
     (case faults w (CReadFile p) of
        Some e \<Rightarrow> Inl e
      | None \<Rightarrow>
          (case lookup w p of
             None \<Rightarrow> Inl NotFound
           | Some Directory \<Rightarrow> Inl IO
           | Some (Regular body) \<Rightarrow> Inr body),
      record_call (CReadFile p) w)"

record DirEntry =
  Name :: string
  IsDir :: bool

text \<open>The name of \<open>p\<close> inside the directory \<open>dir\<close>, when \<open>p\<close> is directly in it.\<close>

definition child_name :: "string \<Rightarrow> string \<Rightarrow> string option" where
  "child_name dir p =
     (let base = (if dir = ''/'' then dir else dir @ ''/'');
          n = drop (length base) p
      in if prefix base p \<and> n \<noteq> [] \<and> CHR ''/'' \<notin> set n then Some n else None)"

definition dir_entries :: "world \<Rightarrow> string \<Rightarrow> DirEntry list" where
  "dir_entries w dir =
     concat (map (\<lambda>p. case child_name dir p of
                        None \<Rightarrow> []
                      | Some n \<Rightarrow> [\<lparr>Name = n, IsDir = (lookup w p = Some Directory)\<rparr>])
                 (sort (remdups (map fst (nodes w)))))"

text \<open>\<open>os.ReadDir\<close>: the entries of a directory, sorted by file name.\<close>

definition os_ReadDir :: "string \<Rightarrow> world \<Rightarrow> (error + DirEntry list) \<times> world" where
  "os_ReadDir p w =
     (case faults w (CReadDir p) of
        Some e \<Rightarrow> Inl e
      | None \<Rightarrow>
          (case lookup w p of
             None \<Rightarrow> Inl NotFound
           | Some (Regular body) \<Rightarrow> Inl IO
           | Some Directory \<Rightarrow> Inr (dir_entries w p)),
      record_call (CReadDir p) w)"

subsection \<open>Storage (LocalStorage)\<close>

text \<open>
  Modelled from the spec: \<open>LocalStorage\<close> and its constructor \<open>NewLocalStorage\<close> are not
  in the file under study. The spec describes a file repository over a fixed root
  directory; \<open>basepath\<close> is that root.
\<close>

record LocalStorage =
  basepath :: string

definition NewLocalStorage :: "string \<Rightarrow> LocalStorage" where
  "NewLocalStorage p = \<lparr>basepath = p\<rparr>"

text \<open>The file \<open><root>/<relpath>\<close>, and the relative path of a file under the root.\<close>

definition abs_path :: "LocalStorage \<Rightarrow> string \<Rightarrow> string" where
  "abs_path s rel = basepath s @ ''/'' @ rel"

definition rel_path :: "LocalStorage \<Rightarrow> string \<Rightarrow> string option" where
  "rel_path s p =
     (if prefix (basepath s @ ''/'') p then Some (drop (length (basepath s) + 1) p)
      else None)"

text \<open>
  Modelled from the spec: \<open>GetFile(relpath)\<close> returns the full contents of
  \<open><root>/<relpath>\<close>, fails with NotFound when absent, IO otherwise.
\<close>

definition GetFile :: "LocalStorage \<Rightarrow> string \<Rightarrow> world \<Rightarrow> (error + string) \<times> world" where
  "GetFile s rel w =
     (case faults w (CGetFile rel) of
        Some e \<Rightarrow> Inl e
      | None \<Rightarrow>
          (case lookup w (abs_path s rel) of
             None \<Rightarrow> Inl NotFound
           | Some Directory \<Rightarrow> Inl IO
           | Some (Regular body) \<Rightarrow> Inr body),
      record_call (CGetFile rel) w)"

text \<open>The directories above a path: its proper prefixes that end before a separator.\<close>

fun parents_from :: "string \<Rightarrow> string \<Rightarrow> string list" where
  "parents_from pre [] = []"
| "parents_from pre (c # cs) =
     (if c = CHR ''/'' \<and> pre \<noteq> [] then pre # parents_from (pre @ [c]) cs
      else parents_from (pre @ [c]) cs)"

definition parents :: "string \<Rightarrow> string list" where
  "parents p = parents_from [] p"

fun mkdir_all :: "string list \<Rightarrow> (string \<times> node) list \<Rightarrow> (string \<times> node) list" where
  "mkdir_all [] al = al"
| "mkdir_all (d # ds) al =
     mkdir_all ds (if map_of al d = None then AList.update d Directory al else al)"

text \<open>
  Modelled from the spec: \<open>PutFile(relpath, bytes)\<close> creates parent directories as needed
  and writes the contents, replacing any prior file. It fails with IO when the device
  does, when the path is a directory, or when a regular file is in the place of a parent
  directory.
\<close>

definition PutFile :: "LocalStorage \<Rightarrow> string \<Rightarrow> string \<Rightarrow> world \<Rightarrow> error option \<times> world" where
  "PutFile s rel body w =
     (let p = abs_path s rel; w' = record_call (CPutFile rel body) w
      in case faults w (CPutFile rel body) of
           Some e \<Rightarrow> (Some e, w')
         | None \<Rightarrow>
             if lookup w p = Some Directory
                \<or> (\<exists>d \<in> set (parents p). \<exists>c. lookup w d = Some (Regular c))
             then (Some IO, w')
             else (None, w'\<lparr>nodes := AList.update p (Regular body)
                                        (mkdir_all (parents p) (nodes w))\<rparr>))"

text \<open>
  Modelled from the spec: \<open>ListFile(prefix)\<close> enumerates the regular files whose relative
  path begins with \<open>prefix\<close>, in lexicographic order; directories are skipped; the
  sequence is empty when nothing is under the prefix. The slice returned has no spare
  capacity.
\<close>

definition list_regular :: "LocalStorage \<Rightarrow> string \<Rightarrow> world \<Rightarrow> string list" where
  "list_regular s pre w =
     sort (remdups
       (concat (map (\<lambda>p. case (lookup w p, rel_path s p) of
                           (Some (Regular body), Some rel) \<Rightarrow> if prefix pre rel then [rel] else []
                         | _ \<Rightarrow> [])
                    (map fst (nodes w)))))"

definition ListFile :: "LocalStorage \<Rightarrow> string \<Rightarrow> world \<Rightarrow> (error + string slice) \<times> world" where
  "ListFile s pre w =
     (case faults w (CListFile pre) of
        Some e \<Rightarrow> Inl e
      | None \<Rightarrow> Inr \<lparr>elems = list_regular s pre w, spare = []\<rparr>,
      record_call (CListFile pre) w)"

text \<open>
  Modelled from the spec: \<open>RenameFile(from, to)\<close> moves a file within the root and fails
  with NotFound if the source is missing. As the rename of the host does, it replaces a
  regular file that has the new name. Only regular files are moved here (the backend
  renames what \<open>ListFile\<close> returned); a directory as source or as target is an IO error.
\<close>

definition RenameFile :: "LocalStorage \<Rightarrow> string \<Rightarrow> string \<Rightarrow> world \<Rightarrow> error option \<times> world" where
  "RenameFile s from to w =
     (let pf = abs_path s from; pt = abs_path s to; w' = record_call (CRenameFile from to) w
      in case faults w (CRenameFile from to) of
           Some e \<Rightarrow> (Some e, w')
         | None \<Rightarrow>
             (case lookup w pf of
                None \<Rightarrow> (Some NotFound, w')
              | Some Directory \<Rightarrow> (Some IO, w')
              | Some (Regular body) \<Rightarrow>
                  if lookup w pt = Some Directory then (Some IO, w')
                  else if pf = pt then (None, w')
                  else (None, w'\<lparr>nodes := AList.update pt (Regular body)
                                             (AList.delete pf (nodes w))\<rparr>)))"

subsection \<open>Jobs, runner state, and what the backend takes from other packages\<close>

text \<open>
  Modelled from the spec: \<open>models.Job\<close> and \<open>models.State\<close> are not in the file under
  study. A Job has the fields the backend reads (job id, master-job id, repo user and
  name); \<open>metadata\<close> stands for every other field. The State holds a pointer to the
  current Job.
\<close>

record 'm Job =
  JobID :: string
  MasterJobID :: string
  RepoUserName :: string
  RepoName :: string
  metadata :: 'm

record 'm State =
  Job :: "'m Job option"

text \<open>The backend config file: \<open>type File struct { Path string }\<close>.\<close>

record File =
  Path :: string

text \<open>Modelled from the spec: \<open>ClientSecret\<close> reads secrets below the root it is given.\<close>

record ClientSecret =
  secret_root :: string

definition NewClientSecret :: "string \<Rightarrow> ClientSecret" where
  "NewClientSecret p = \<lparr>secret_root = p\<rparr>"

text \<open>
  What the functions of the backend call and this file does not define, taken as
  parameters: the home directory of the process (\<open>common.HomeDir()\<close>), the path helpers
  of a Job, the YAML encoder and decoders, and \<open>ClientSecret.fetchSecret\<close>.
  The decoder of the State gets the pointer it decodes into and returns the pointer
  afterwards: a failed decoding may have changed it.
\<close>

record 'm env =
  HomeDir :: string
  JobFilepath :: "'m Job \<Rightarrow> string"
  JobHeadFilepathPrefix :: "'m Job \<Rightarrow> string"
  JobHeadFilepath :: "'m Job \<Rightarrow> string"
  RepoHostNameWithPort :: "'m Job \<Rightarrow> string"
  yaml_Marshal :: "'m Job \<Rightarrow> error + string"
  yaml_Unmarshal_Job :: "string \<Rightarrow> error + 'm Job"
  yaml_Unmarshal_State :: "string \<Rightarrow> 'm State option \<Rightarrow> error option \<times> 'm State option"
  yaml_Unmarshal_File :: "string \<Rightarrow> error + File"
  fetchSecret :: "ClientSecret \<Rightarrow> string \<Rightarrow> (string \<rightharpoonup> string) \<Rightarrow> world
                    \<Rightarrow> ((string \<rightharpoonup> string) option \<times> error option) \<times> world"

text \<open>Modelled from the spec: \<open>consts.DSTACK_DIR_PATH\<close>; the working root is \<open><home>/.dstack\<close>.\<close>

definition DSTACK_DIR_PATH :: string where
  "DSTACK_DIR_PATH = ''.dstack''"

text \<open>Modelled from the spec: \<open>states.Stopping\<close>, the literal status \<open>Stopping\<close>.\<close>

definition Stopping :: string where
  "Stopping = ''Stopping''"

subsection \<open>The facade\<close>

record 'm Local =
  path :: string
  runnerID :: string
  state :: "'m State option"
  storage :: LocalStorage
  cliSecret :: ClientSecret

definition New :: "'m env \<Rightarrow> 'm Local" where
  "New env =
     (let p = filepath_Join [HomeDir env, DSTACK_DIR_PATH]
      in \<lparr>path = p, runnerID = [], state = None,
          storage = NewLocalStorage p, cliSecret = NewClientSecret p\<rparr>)"

text \<open>The constructor that \<open>init\<close> registers under the name \<open>local\<close>.\<close>

definition local_constructor ::
  "'m env \<Rightarrow> string \<Rightarrow> world \<Rightarrow> ('m Local option \<times> error option) \<times> world" where
  "local_constructor env pathConfig w =
     (let (r, w1) = ioutil_ReadFile pathConfig w
      in case r of
           Inl err \<Rightarrow> ((None, Some err), record_call (CPrintln err) w1)
         | Inr theConfig \<Rightarrow>
             (case yaml_Unmarshal_File env theConfig of
                Inl err \<Rightarrow> ((None, Some err), record_call (CPrintln err) w1)
              | Inr file \<Rightarrow> ((Some (New env), None), w1)))"

text \<open>\<open>Init\<close> has a pointer receiver: the facade it leaves is part of the result.\<close>

definition Init ::
  "'m env \<Rightarrow> 'm Local \<Rightarrow> string \<Rightarrow> world \<Rightarrow> (error option \<times> 'm Local) \<times> world" where
  "Init env l ID w =
     (let l1 = l\<lparr>runnerID := ID\<rparr>;
          pathRunner = filepath_Join [''runners'', ID @ ''.yaml''];
          (r, w1) = GetFile (storage l1) pathRunner w
      in case r of
           Inl err \<Rightarrow> ((Some (Wrap err), l1), w1)
         | Inr contents \<Rightarrow>
             (case yaml_Unmarshal_State env contents (state l1) of
                (Some err, st) \<Rightarrow> ((Some (Wrap err), l1\<lparr>state := st\<rparr>), w1)
              | (None, st) \<Rightarrow> ((None, l1\<lparr>state := st\<rparr>), w1)))"

text \<open>
  \<open>MasterJob\<close> reads \<open>l.state.Job\<close>: a facade whose state or Job is nil panics there.
  The result \<open>None\<close> is the nil Job.
\<close>

definition MasterJob :: "'m env \<Rightarrow> 'm Local \<Rightarrow> world \<Rightarrow> 'm Job option outcome \<times> world" where
  "MasterJob env l w =
     (case state l of
        None \<Rightarrow> (Panics NilDereference, w)
      | Some st \<Rightarrow>
          (case Job st of
             None \<Rightarrow> (Panics NilDereference, w)
           | Some j \<Rightarrow>
               (let (r, w1) = GetFile (storage l)
                                (filepath_Join [''jobs'', RepoUserName j, RepoName j,
                                                MasterJobID j @ ''.yaml'']) w
                in case r of
                     Inl err \<Rightarrow> (Returns None, w1)
                   | Inr contents \<Rightarrow>
                       (case yaml_Unmarshal_Job env contents of
                          Inl err \<Rightarrow> (Returns None, w1)
                        | Inr masterJob \<Rightarrow> (Returns (Some masterJob), w1)))))"

text \<open>The loop of \<open>UpdateState\<close> over \<open>files[:1]\<close>: it returns at the first failed rename.\<close>

fun rename_each ::
  "LocalStorage \<Rightarrow> string list \<Rightarrow> string \<Rightarrow> world \<Rightarrow> error option \<times> world" where
  "rename_each s [] jobHeadFilepath w = (None, w)"
| "rename_each s (file # rest) jobHeadFilepath w =
     (case RenameFile s file jobHeadFilepath w of
        (Some err, w') \<Rightarrow> (Some (Wrap err), w')
      | (None, w') \<Rightarrow> rename_each s rest jobHeadFilepath w')"

text \<open>
  \<open>UpdateState\<close>: marshal the Job, write it to its file, list the head files, rename
  the first one. \<open>files[:1]\<close> is a slice expression: it panics when the capacity of
  \<open>files\<close> is zero.
\<close>

definition UpdateState :: "'m env \<Rightarrow> 'm Local \<Rightarrow> world \<Rightarrow> error option outcome \<times> world" where
  "UpdateState env l w =
     (case state l of
        None \<Rightarrow> (Panics NilDereference, w)
      | Some st \<Rightarrow>
          (case Job st of
             None \<Rightarrow> (Panics NilDereference, w)
           | Some j \<Rightarrow>
               (case yaml_Marshal env j of
                  Inl err \<Rightarrow> (Returns (Some (Wrap err)), w)
                | Inr contents \<Rightarrow>
                    (let jobPath = JobFilepath env j
                     in case PutFile (storage l) jobPath contents w of
                          (Some err, w1) \<Rightarrow> (Returns (Some (Wrap err)), w1)
                        | (None, w1) \<Rightarrow>
                            (case ListFile (storage l) (JobHeadFilepathPrefix env j) w1 of
                               (Inl err, w2) \<Rightarrow> (Returns (Some (Wrap err)), w2)
                             | (Inr files, w2) \<Rightarrow>
                                 (let jobHeadFilepath = JobHeadFilepath env j
                                  in case reslice_upto files 1 of
                                       None \<Rightarrow> (Panics SliceBounds, w2)
                                     | Some files1 \<Rightarrow>
                                         (case rename_each (storage l) (elems files1)
                                                 jobHeadFilepath w2 of
                                            (r, w3) \<Rightarrow> (Returns r, w3))))))))"

text \<open>\<open>CheckStop\<close>: the stop signal file is read only when \<open>os.Stat\<close> gives no error.\<close>

definition stop_signal_path :: "'m Local \<Rightarrow> string" where
  "stop_signal_path l = filepath_Join [path l, ''runners/m;'' @ runnerID l @ '';status'']"

definition CheckStop :: "'m Local \<Rightarrow> world \<Rightarrow> (bool \<times> error option) \<times> world" where
  "CheckStop l w =
     (case os_Stat (stop_signal_path l) w of
        (Inr info, w1) \<Rightarrow>
          (case os_Open (stop_signal_path l) w1 of
             (Inl err, w2) \<Rightarrow> ((False, Some (Wrap err)), w2)
           | (Inr file, w2) \<Rightarrow>
               (case io_ReadAll file w2 of
                  (Inl err, w3) \<Rightarrow> ((False, Some (Wrap err)), w3)
                | (Inr body, w3) \<Rightarrow>
                    if body = Stopping then ((True, None), w3) else ((False, None), w3)))
      | (Inl err, w1) \<Rightarrow> ((False, None), w1))"

text \<open>
  The loop of \<open>Secrets\<close> over the directory entries; \<open>loc\<close> is
  \<open><host>/<user>/<repo>\<close>. A Go map is a map; a later entry with the same key
  replaces the earlier one.
\<close>

fun collect_secrets :: "string \<Rightarrow> DirEntry list \<Rightarrow> (string \<rightharpoonup> string) \<Rightarrow> (string \<rightharpoonup> string)" where
  "collect_secrets loc [] secrets = secrets"
| "collect_secrets loc (file # rest) secrets =
     (if IsDir file then collect_secrets loc rest secrets
      else if HasPrefix (Name file) ''l;''
      then (let clearName = ReplaceAll (Name file) ''l;'' []
            in collect_secrets loc rest (secrets(clearName \<mapsto> loc @ ''/'' @ clearName)))
      else collect_secrets loc rest secrets)"

definition secrets_location :: "'m env \<Rightarrow> 'm Job \<Rightarrow> string" where
  "secrets_location env j =
     RepoHostNameWithPort env j @ ''/'' @ RepoUserName j @ ''/'' @ RepoName j"

definition Secrets ::
  "'m env \<Rightarrow> 'm Local \<Rightarrow> world \<Rightarrow> ((string \<rightharpoonup> string) option \<times> error option) outcome \<times> world" where
  "Secrets env l w =
     (case state l of
        None \<Rightarrow> (Panics NilDereference, w)
      | Some st \<Rightarrow>
          (case Job st of
             None \<Rightarrow> (Panics NilDereference, w)
           | Some j \<Rightarrow>
               (let templatePath = ''secrets/'' @ secrets_location env j
                in case os_Stat (filepath_Join [path l, templatePath]) w of
                     (Inl err, w1) \<Rightarrow> (Returns (Some Map.empty, None), w1)
                   | (Inr info, w1) \<Rightarrow>
                       (case os_ReadDir (filepath_Join [path l, templatePath]) w1 of
                          (Inl err, w2) \<Rightarrow> (Returns (None, Some (Wrap err)), w2)
                        | (Inr listSecrets, w2) \<Rightarrow>
                            (let secrets = collect_secrets (secrets_location env j)
                                             listSecrets Map.empty
                             in case fetchSecret env (cliSecret l) templatePath secrets
                                       (record_call (CFetchSecret templatePath secrets) w2) of
                                  (r, w3) \<Rightarrow> (Returns r, w3))))))"

subsection \<open>Example states\<close>

text \<open>
  A concrete environment, job and facade on which the properties below are evaluated.
  The metadata of the example job is its status; the head file of a job is
  \<open>jobs/<user>/<repo>/l;<job-id>;<status>\<close>.
\<close>

definition example_job :: "string Job" where
  "example_job = \<lparr>JobID = ''J1'', MasterJobID = ''M9'', RepoUserName = ''u'', RepoName = ''r'',
                  metadata = ''running''\<rparr>"

definition example_env :: "string env" where
  "example_env =
     \<lparr>HomeDir = ''/home/u'',
      JobFilepath = (\<lambda>j. ''jobs/'' @ RepoUserName j @ ''/'' @ RepoName j @ ''/''
                            @ JobID j @ ''.yaml''),
      JobHeadFilepathPrefix = (\<lambda>j. ''jobs/'' @ RepoUserName j @ ''/'' @ RepoName j @ ''/l;''
                                      @ JobID j @ '';''),
      JobHeadFilepath = (\<lambda>j. ''jobs/'' @ RepoUserName j @ ''/'' @ RepoName j @ ''/l;''
                                @ JobID j @ '';'' @ metadata j),
      RepoHostNameWithPort = (\<lambda>j. ''github.com''),
      yaml_Marshal = (\<lambda>j. Inr (''job_id: '' @ JobID j @ '' status: '' @ metadata j)),
      yaml_Unmarshal_Job =
        (\<lambda>s. if s = ''job_id: M9''
              then Inr (example_job\<lparr>JobID := ''M9'', MasterJobID := []\<rparr>)
              else Inl Corrupt),
      yaml_Unmarshal_State =
        (\<lambda>s st. if s = ''job: J1'' then (None, Some \<lparr>Job = Some example_job\<rparr>)
                 else (Some Corrupt, st)),
      yaml_Unmarshal_File =
        (\<lambda>s. if prefix ''path: '' s then Inr \<lparr>Path = drop 6 s\<rparr> else Inl Corrupt),
      fetchSecret = (\<lambda>cs templatePath secrets w. ((Some secrets, None), w))\<rparr>"

definition example_local :: "string Local" where
  "example_local =
     (New example_env)\<lparr>runnerID := ''R1'', state := Some \<lparr>Job = Some example_job\<rparr>\<rparr>"

definition no_faults :: "call \<Rightarrow> error option" where
  "no_faults = (\<lambda>c. None)"

definition stopping_world :: world where
  "stopping_world =
     \<lparr>nodes = [(''/home/u/.dstack/runners/m;R1;status'', Regular ''Stopping'')],
      faults = no_faults, log = []\<rparr>"

definition stat_fault_world :: world where
  "stat_fault_world =
     stopping_world\<lparr>faults := (\<lambda>c. if c = CStat ''/home/u/.dstack/runners/m;R1;status''
                                    then Some IO else None)\<rparr>"

definition open_fault_world :: world where
  "open_fault_world =
     stopping_world\<lparr>faults := (\<lambda>c. if c = COpen ''/home/u/.dstack/runners/m;R1;status''
                                    then Some IO else None)\<rparr>"

definition empty_world :: world where
  "empty_world = \<lparr>nodes = [], faults = no_faults, log = []\<rparr>"

definition config_world :: world where
  "config_world =
     \<lparr>nodes = [(''/etc/a.yaml'', Regular ''path: /srv/data''),
               (''/etc/b.yaml'', Regular ''path: /tmp/other'')],
      faults = no_faults, log = []\<rparr>"

definition secrets_world :: world where
  "secrets_world =
     \<lparr>nodes = [(''/home/u/.dstack/secrets/github.com/u/r'', Directory),
               (''/home/u/.dstack/secrets/github.com/u/r/l;al;b'', Regular ''s3cret'')],
      faults = no_faults, log = []\<rparr>"

subsection \<open>Conditions on the world for UpdateState\<close>

text \<open>
  \<open>writable\<close>: nothing in the file system stands in the way of writing the file
  (no directory in its place, no regular file in the place of a directory above it).
  \<open>quiet\<close>: the device reports no error. \<open>heads_clear\<close>: no directory has a path
  that begins with the head prefix.
\<close>

definition writable :: "LocalStorage \<Rightarrow> string \<Rightarrow> world \<Rightarrow> bool" where
  "writable s rel w \<longleftrightarrow>
     lookup w (abs_path s rel) \<noteq> Some Directory
     \<and> (\<forall>d \<in> set (parents (abs_path s rel)). \<forall>c. lookup w d \<noteq> Some (Regular c))"

definition quiet :: "world \<Rightarrow> bool" where
  "quiet w \<longleftrightarrow> (\<forall>c. faults w c = None)"

definition heads_clear :: "LocalStorage \<Rightarrow> string \<Rightarrow> world \<Rightarrow> bool" where
  "heads_clear s pre w \<longleftrightarrow>
     (\<forall>rel. prefix pre rel \<longrightarrow> lookup w (abs_path s rel) \<noteq> Some Directory)"

text \<open>
  A finite sequence of \<open>UpdateState\<close> calls, the i-th made when the facade holds the
  i-th Job of the list; it stops at the first call that does not return nil.
\<close>

fun UpdateState_each ::
  "'m env \<Rightarrow> 'm Local \<Rightarrow> 'm Job list \<Rightarrow> world \<Rightarrow> error option outcome \<times> world" where
  "UpdateState_each env l [] w = (Returns None, w)"
| "UpdateState_each env l (j # js) w =
     (case UpdateState env (l\<lparr>state := Some \<lparr>Job = Some j\<rparr>\<rparr>) w of
        (Returns None, w') \<Rightarrow> UpdateState_each env l js w'
      | (r, w') \<Rightarrow> (r, w'))"

text \<open>Worlds with one head file, and with two, for the example job.\<close>

definition single_head_world :: world where
  "single_head_world =
     \<lparr>nodes = [(''/home/u/.dstack/jobs/u/r/l;J1;pending'', Regular [])],
      faults = no_faults, log = []\<rparr>"

definition two_heads_world :: world where
  "two_heads_world =
     \<lparr>nodes = [(''/home/u/.dstack/jobs/u/r/l;J1;pending'', Regular ''p''),
               (''/home/u/.dstack/jobs/u/r/l;J1;running'', Regular ''r'')],
      faults = no_faults, log = []\<rparr>"

definition stale_head_world :: world where
  "stale_head_world =
     \<lparr>nodes = [(''/home/u/.dstack/jobs/u/r/l;J1;pending'', Regular ''p''),
               (''/home/u/.dstack/jobs/u/r/l;J1;submitted'', Regular ''s'')],
      faults = no_faults, log = []\<rparr>"

definition example_done_job :: "string Job" where
  "example_done_job = example_job\<lparr>metadata := ''done''\<rparr>"

section \<open>Properties\<close>

subsection \<open>Recording a call changes the log only\<close>

lemma faults_record_call [simp]: "faults (record_call c w) = faults w"
  by (simp add: record_call_def)

lemma lookup_record_call [simp]: "lookup (record_call c w) p = lookup w p"
  by (simp add: record_call_def lookup_def)

lemma log_record_call [simp]: "log (record_call c w) = log w @ [c]"
  by (simp add: record_call_def)

lemma nodes_record_call [simp]: "nodes (record_call c w) = nodes w"
  by (simp add: record_call_def)

lemma fst_os_Open_record_call [simp]: "fst (os_Open p (record_call c w)) = fst (os_Open p w)"
  by (simp add: os_Open_def split: option.splits)

lemma fst_io_ReadAll_record_call [simp]:
  "fst (io_ReadAll f (record_call c w)) = fst (io_ReadAll f w)"
  by (simp add: io_ReadAll_def split: option.splits)

lemma snd_os_Stat [simp]: "snd (os_Stat p w) = record_call (CStat p) w"
  by (simp add: os_Stat_def)

lemma snd_os_Open [simp]: "snd (os_Open p w) = record_call (COpen p) w"
  by (simp add: os_Open_def)

lemma snd_io_ReadAll [simp]: "snd (io_ReadAll p w) = record_call (CReadAll p) w"
  by (simp add: io_ReadAll_def)

lemma example_stop_signal_path:
  "stop_signal_path example_local = ''/home/u/.dstack/runners/m;R1;status''"
  by (simp add: stop_signal_path_def example_local_def New_def example_env_def
        DSTACK_DIR_PATH_def filepath_Join_def filepath_Clean_def Let_def)

subsection \<open>CheckStop\<close>

text \<open>
  Claim C6, as stated, fails: the stop signal file exists and its whole contents are
  \<open>Stopping\<close>, but \<open>os.Stat\<close> on it reports an error, and \<open>CheckStop\<close> returns
  \<open>(false, nil)\<close>, not \<open>(true, nil)\<close>.
\<close>

theorem CheckStop_false_on_Stopping_file:
  "lookup stat_fault_world (stop_signal_path example_local) = Some (Regular Stopping)
   \<and> fst (CheckStop example_local stat_fault_world) = (False, None)
   \<and> fst (CheckStop example_local stat_fault_world) \<noteq> (True, None)"
  by (simp add: example_stop_signal_path stat_fault_world_def stopping_world_def lookup_def
        Stopping_def CheckStop_def os_Stat_def)

text \<open>
  Claim C6, amended. \<open>CheckStop\<close> returns \<open>(true, nil)\<close> exactly when the stop signal
  file \<open>runners/m;<runner-id>;status\<close> exists, its whole contents are \<open>Stopping\<close>, and
  \<open>os.Stat\<close>, \<open>os.Open\<close> and \<open>io.ReadAll\<close> on it report no error. It returns
  \<open>(false, nil)\<close> when the file is missing, and, when opening and reading report no
  error, when the file holds any other contents.
\<close>

theorem CheckStop_Stopping_without_errors:
  "(fst (CheckStop l w) = (True, None) \<longleftrightarrow>
      faults w (CStat (stop_signal_path l)) = None
      \<and> faults w (COpen (stop_signal_path l)) = None
      \<and> faults w (CReadAll (stop_signal_path l)) = None
      \<and> lookup w (stop_signal_path l) = Some (Regular Stopping))
   \<and> (lookup w (stop_signal_path l) = None \<longrightarrow> fst (CheckStop l w) = (False, None))
   \<and> (\<forall>body. lookup w (stop_signal_path l) = Some (Regular body) \<and> body \<noteq> Stopping
          \<and> faults w (COpen (stop_signal_path l)) = None
          \<and> faults w (CReadAll (stop_signal_path l)) = None \<longrightarrow>
          fst (CheckStop l w) = (False, None))"
  by (auto simp: CheckStop_def os_Stat_def os_Open_def io_ReadAll_def
           split: option.splits sum.splits node.splits prod.splits if_splits)

theorem CheckStop_Stopping_without_errors_witness:
  "fst (CheckStop example_local stopping_world) = (True, None)
   \<and> fst (CheckStop example_local
            (stopping_world\<lparr>nodes := [(''/home/u/.dstack/runners/m;R1;status'',
                                        Regular ''Running'')]\<rparr>)) = (False, None)
   \<and> fst (CheckStop example_local (stopping_world\<lparr>nodes := []\<rparr>)) = (False, None)"
  using CheckStop_Stopping_without_errors [of example_local stopping_world]
    CheckStop_Stopping_without_errors [of example_local
      "stopping_world\<lparr>nodes := [(''/home/u/.dstack/runners/m;R1;status'',
                                  Regular ''Running'')]\<rparr>"]
    CheckStop_Stopping_without_errors [of example_local "stopping_world\<lparr>nodes := []\<rparr>"]
  by (simp add: example_stop_signal_path stopping_world_def no_faults_def lookup_def
        Stopping_def)

text \<open>
  Claim C3, as stated, fails: the stop signal file exists with the contents
  \<open>Stopping\<close>, \<open>os.Stat\<close> on it fails with an I/O error that is not absence, and
  \<open>CheckStop\<close> returns \<open>(false, nil)\<close> after that single call.
\<close>

theorem CheckStop_swallows_Stat_error:
  "lookup stat_fault_world (stop_signal_path example_local) = Some (Regular ''Stopping'')
   \<and> fst (os_Stat (stop_signal_path example_local) stat_fault_world) = Inl IO
   \<and> CheckStop example_local stat_fault_world =
       ((False, None), record_call (CStat (stop_signal_path example_local)) stat_fault_world)"
  by (simp add: example_stop_signal_path stat_fault_world_def stopping_world_def lookup_def
        CheckStop_def os_Stat_def)

text \<open>
  Claim C3, amended. When \<open>os.Stat\<close> on the stop signal file succeeds, an error of
  \<open>os.Open\<close> or of \<open>io.ReadAll\<close> on it is returned to the caller, wrapped, with
  \<open>false\<close>.
\<close>

theorem CheckStop_surfaces_Open_ReadAll_errors:
  assumes "fst (os_Stat (stop_signal_path l) w) = Inr info"
  shows "(fst (os_Open (stop_signal_path l) w) = Inl err \<longrightarrow>
            fst (CheckStop l w) = (False, Some (Wrap err)))
       \<and> (fst (os_Open (stop_signal_path l) w) = Inr file
            \<and> fst (io_ReadAll file w) = Inl err \<longrightarrow>
            fst (CheckStop l w) = (False, Some (Wrap err)))"
proof -
  obtain w1 where s: "os_Stat (stop_signal_path l) w = (Inr info, w1)"
    and w1: "w1 = record_call (CStat (stop_signal_path l)) w"
    using assms by (cases "os_Stat (stop_signal_path l) w") (simp add: os_Stat_def)
  show ?thesis
  proof (intro conjI impI)
    assume "fst (os_Open (stop_signal_path l) w) = Inl err"
    then have "fst (os_Open (stop_signal_path l) w1) = Inl err" by (simp add: w1)
    then show "fst (CheckStop l w) = (False, Some (Wrap err))"
      by (cases "os_Open (stop_signal_path l) w1") (simp add: CheckStop_def s)
  next
    assume a: "fst (os_Open (stop_signal_path l) w) = Inr file
                \<and> fst (io_ReadAll file w) = Inl err"
    then have o: "fst (os_Open (stop_signal_path l) w1) = Inr file" by (simp add: w1)
    then obtain w2 where o2: "os_Open (stop_signal_path l) w1 = (Inr file, w2)"
      and w2: "w2 = record_call (COpen (stop_signal_path l)) w1"
      by (cases "os_Open (stop_signal_path l) w1") (simp add: os_Open_def)
    from a have "fst (io_ReadAll file w2) = Inl err" by (simp add: w1 w2)
    then show "fst (CheckStop l w) = (False, Some (Wrap err))"
      by (cases "io_ReadAll file w2") (simp add: CheckStop_def s o2)
  qed
qed

theorem CheckStop_surfaces_Open_ReadAll_errors_witness:
  "fst (os_Stat (stop_signal_path example_local) open_fault_world) = Inr False
   \<and> fst (os_Open (stop_signal_path example_local) open_fault_world) = Inl IO
   \<and> fst (CheckStop example_local open_fault_world) = (False, Some (Wrap IO))"
proof -
  have s: "fst (os_Stat (stop_signal_path example_local) open_fault_world) = Inr False"
    by (simp add: example_stop_signal_path open_fault_world_def stopping_world_def
          lookup_def os_Stat_def no_faults_def)
  have o: "fst (os_Open (stop_signal_path example_local) open_fault_world) = Inl IO"
    by (simp add: example_stop_signal_path open_fault_world_def stopping_world_def
          lookup_def os_Open_def)
  from CheckStop_surfaces_Open_ReadAll_errors [OF s, of IO] o
  have "fst (CheckStop example_local open_fault_world) = (False, Some (Wrap IO))"
    by blast
  with s o show ?thesis by blast
qed

subsection \<open>MasterJob\<close>

text \<open>
  Claim C7. For a facade that holds a Job: when reading the master-job file
  \<open>jobs/<repo-user>/<repo-name>/<master-id>.yaml\<close> fails, for whatever reason, or its
  contents do not parse, \<open>MasterJob\<close> returns nil and neither fails nor panics; when the
  read and the parse succeed it returns the parsed Job.
\<close>

theorem MasterJob_nil_on_failure:
  assumes "state l = Some st" and "Job st = Some j"
  shows "(fst (GetFile (storage l) (filepath_Join [''jobs'', RepoUserName j, RepoName j,
                                                    MasterJobID j @ ''.yaml'']) w) = Inl err \<longrightarrow>
            fst (MasterJob env l w) = Returns None)
       \<and> (fst (GetFile (storage l) (filepath_Join [''jobs'', RepoUserName j, RepoName j,
                                                    MasterJobID j @ ''.yaml'']) w) = Inr contents \<longrightarrow>
            (yaml_Unmarshal_Job env contents = Inl err \<longrightarrow>
               fst (MasterJob env l w) = Returns None)
            \<and> (yaml_Unmarshal_Job env contents = Inr masterJob \<longrightarrow>
               fst (MasterJob env l w) = Returns (Some masterJob)))"
  using assms by (auto simp: MasterJob_def split: prod.splits sum.splits)

theorem MasterJob_nil_on_failure_witness:
  "fst (GetFile (storage example_local) ''jobs/u/r/M9.yaml'' empty_world) = Inl NotFound
   \<and> fst (MasterJob example_env example_local empty_world) = Returns None"
proof -
  have p: "filepath_Join [''jobs'', RepoUserName example_job, RepoName example_job,
                          MasterJobID example_job @ ''.yaml''] = ''jobs/u/r/M9.yaml''"
    by (simp add: example_job_def filepath_Join_def filepath_Clean_def Let_def)
  have g: "fst (GetFile (storage example_local) ''jobs/u/r/M9.yaml'' empty_world) = Inl NotFound"
    by (simp add: GetFile_def empty_world_def no_faults_def lookup_def)
  have s: "state example_local = Some \<lparr>Job = Some example_job\<rparr>"
    by (simp add: example_local_def)
  from MasterJob_nil_on_failure [OF s, of example_job empty_world NotFound example_env] g p
  have "fst (MasterJob example_env example_local empty_world) = Returns None"
    by simp
  with g show ?thesis by blast
qed

subsection \<open>Secrets on an absent directory\<close>

text \<open>
  Claim C8. For a facade that holds a Job and whose secret directory
  \<open>secrets/<repo-host-with-port>/<repo-user>/<repo-name>\<close> is absent, \<open>Secrets\<close>
  returns an empty mapping and a nil error, and the only call it makes is the
  \<open>os.Stat\<close> of the directory: the credential store is not consulted.
\<close>

theorem Secrets_absent_directory:
  assumes "state l = Some st" and "Job st = Some j"
    and "lookup w (filepath_Join [path l, ''secrets/'' @ RepoHostNameWithPort env j @ ''/''
                                            @ RepoUserName j @ ''/'' @ RepoName j]) = None"
  shows "Secrets env l w =
           (Returns (Some Map.empty, None),
            record_call (CStat (filepath_Join [path l, ''secrets/'' @ RepoHostNameWithPort env j
                                   @ ''/'' @ RepoUserName j @ ''/'' @ RepoName j])) w)"
  using assms
  by (auto simp: Secrets_def secrets_location_def os_Stat_def Let_def split: option.splits)

theorem Secrets_absent_directory_witness:
  "Secrets example_env example_local empty_world =
     (Returns (Some Map.empty, None),
      empty_world\<lparr>log := [CStat ''/home/u/.dstack/secrets/github.com/u/r'']\<rparr>)"
proof -
  have p: "filepath_Join [path example_local,
             ''secrets/'' @ RepoHostNameWithPort example_env example_job @ ''/''
               @ RepoUserName example_job @ ''/'' @ RepoName example_job]
           = ''/home/u/.dstack/secrets/github.com/u/r''"
    by (simp add: example_local_def New_def example_env_def example_job_def
          DSTACK_DIR_PATH_def filepath_Join_def filepath_Clean_def Let_def)
  have s: "state example_local = Some \<lparr>Job = Some example_job\<rparr>"
    by (simp add: example_local_def)
  have a: "lookup empty_world ''/home/u/.dstack/secrets/github.com/u/r'' = None"
    by (simp add: lookup_def empty_world_def)
  from Secrets_absent_directory [OF s, of example_job empty_world example_env] a p
  show ?thesis by (simp add: record_call_def empty_world_def)
qed

subsection \<open>The registered constructor\<close>

text \<open>
  Claim C9. For any two config files that are both readable and both parse, the
  constructor registered as \<open>local\<close> returns the same backend, \<open>New()\<close>: its working
  root, its storage root and its secret-store root are \<open><home>/.dstack\<close>, whatever the
  config files hold.
\<close>

theorem local_constructor_ignores_config:
  assumes "fst (ioutil_ReadFile pathConfig1 w1) = Inr config1"
    and "yaml_Unmarshal_File env config1 = Inr file1"
    and "fst (ioutil_ReadFile pathConfig2 w2) = Inr config2"
    and "yaml_Unmarshal_File env config2 = Inr file2"
  shows "fst (local_constructor env pathConfig1 w1) = fst (local_constructor env pathConfig2 w2)
       \<and> fst (local_constructor env pathConfig1 w1) = (Some (New env), None)
       \<and> path (New env) = filepath_Join [HomeDir env, ''.dstack'']
       \<and> storage (New env) = NewLocalStorage (filepath_Join [HomeDir env, ''.dstack''])
       \<and> cliSecret (New env) = NewClientSecret (filepath_Join [HomeDir env, ''.dstack''])"
  using assms
  by (auto simp: local_constructor_def New_def DSTACK_DIR_PATH_def Let_def split: prod.splits)

theorem local_constructor_ignores_config_witness:
  "fst (local_constructor example_env ''/etc/a.yaml'' config_world)
     = fst (local_constructor example_env ''/etc/b.yaml'' config_world)
   \<and> fst (local_constructor example_env ''/etc/a.yaml'' config_world)
     = (Some (New example_env), None)
   \<and> path (New example_env) = ''/home/u/.dstack''"
proof -
  have r1: "fst (ioutil_ReadFile ''/etc/a.yaml'' config_world) = Inr ''path: /srv/data''"
    by (simp add: ioutil_ReadFile_def config_world_def no_faults_def lookup_def)
  have r2: "fst (ioutil_ReadFile ''/etc/b.yaml'' config_world) = Inr ''path: /tmp/other''"
    by (simp add: ioutil_ReadFile_def config_world_def no_faults_def lookup_def)
  have u1: "yaml_Unmarshal_File example_env ''path: /srv/data'' = Inr \<lparr>Path = ''/srv/data''\<rparr>"
    by (simp add: example_env_def)
  have u2: "yaml_Unmarshal_File example_env ''path: /tmp/other'' = Inr \<lparr>Path = ''/tmp/other''\<rparr>"
    by (simp add: example_env_def)
  have h: "filepath_Join [HomeDir example_env, ''.dstack''] = ''/home/u/.dstack''"
    by (simp add: example_env_def filepath_Join_def filepath_Clean_def Let_def)
  from local_constructor_ignores_config [OF r1 u1 r2 u2] h
  show ?thesis by auto
qed

subsection \<open>Init\<close>

text \<open>
  Claim C10. Whatever \<open>Init\<close> returns, the facade it leaves holds the given runner id;
  so when \<open>Init\<close> fails with a runner id other than the one held before, the facade has
  changed, and a following \<open>CheckStop\<close> starts with \<open>os.Stat\<close> on
  \<open>runners/m;<id>;status\<close> for the new id.
\<close>

theorem Init_records_runnerID:
  assumes "Init env l ID w = ((r, l'), w')"
  shows "runnerID l' = ID \<and> path l' = path l
       \<and> log w' = log w @ [CGetFile (filepath_Join [''runners'', ID @ ''.yaml''])]
       \<and> (r \<noteq> None \<and> runnerID l \<noteq> ID \<longrightarrow> l' \<noteq> l)
       \<and> stop_signal_path l' = filepath_Join [path l, ''runners/m;'' @ ID @ '';status'']
       \<and> (\<exists>rest. log (snd (CheckStop l' w'))
             = log w' @ CStat (filepath_Join [path l, ''runners/m;'' @ ID @ '';status'']) # rest)"
proof -
  have a: "runnerID l' = ID \<and> path l' = path l
       \<and> log w' = log w @ [CGetFile (filepath_Join [''runners'', ID @ ''.yaml''])]"
    using assms
    by (auto simp: Init_def GetFile_def Let_def split: prod.splits sum.splits option.splits)
  then have b: "stop_signal_path l' = filepath_Join [path l, ''runners/m;'' @ ID @ '';status'']"
    by (simp add: stop_signal_path_def)
  have c: "\<exists>rest. log (snd (CheckStop l' w')) = log w' @ CStat (stop_signal_path l') # rest"
    by (auto simp: CheckStop_def os_Stat_def os_Open_def io_ReadAll_def
             split: prod.splits sum.splits option.splits)
  from a b c show ?thesis by auto
qed

theorem Init_records_runnerID_witness:
  "Init example_env (New example_env) ''R1'' empty_world =
     ((Some (Wrap NotFound), (New example_env)\<lparr>runnerID := ''R1''\<rparr>),
      empty_world\<lparr>log := [CGetFile ''runners/R1.yaml'']\<rparr>)
   \<and> (New example_env)\<lparr>runnerID := ''R1''\<rparr> \<noteq> New example_env
   \<and> stop_signal_path ((New example_env)\<lparr>runnerID := ''R1''\<rparr>)
       = ''/home/u/.dstack/runners/m;R1;status''"
proof -
  have p: "filepath_Join [''runners'', ''R1.yaml''] = ''runners/R1.yaml''"
    by code_simp
  have i: "Init example_env (New example_env) ''R1'' empty_world =
     ((Some (Wrap NotFound), (New example_env)\<lparr>runnerID := ''R1''\<rparr>),
      empty_world\<lparr>log := [CGetFile ''runners/R1.yaml'']\<rparr>)"
    by (simp add: Init_def p GetFile_def empty_world_def no_faults_def lookup_def
          record_call_def)
  have n: "runnerID (New example_env) \<noteq> ''R1''"
    by (simp add: New_def Let_def)
  have q: "filepath_Join [path (New example_env), ''runners/m;'' @ ''R1'' @ '';status'']
             = ''/home/u/.dstack/runners/m;R1;status''"
    by (simp add: New_def example_env_def DSTACK_DIR_PATH_def filepath_Join_def
          filepath_Clean_def Let_def)
  from Init_records_runnerID [OF i] n q
  have "(New example_env)\<lparr>runnerID := ''R1''\<rparr> \<noteq> New example_env
      \<and> stop_signal_path ((New example_env)\<lparr>runnerID := ''R1''\<rparr>)
          = ''/home/u/.dstack/runners/m;R1;status''"
    by simp
  with i show ?thesis by blast
qed

subsection \<open>The names collected by Secrets\<close>

text \<open>
  The keys that the loop of \<open>Secrets\<close> adds: one for every entry that is not a
  directory and starts with \<open>l;\<close>, namely its name with every occurrence of \<open>l;\<close>
  removed. On a name with no \<open>l;\<close> after the leading one this is the name without its
  first two characters.
\<close>

lemma dom_collect_secrets:
  "dom (collect_secrets loc es m) =
     dom m \<union> (\<lambda>e. ReplaceAll (Name e) ''l;'' []) `
               {e \<in> set es. \<not> IsDir e \<and> prefix ''l;'' (Name e)}"
  by (induction es arbitrary: m) (auto simp: HasPrefix_def Let_def)

lemma ReplaceAll_no_occurrence:
  "old \<noteq> [] \<Longrightarrow> \<not> sublist old s \<Longrightarrow> ReplaceAll s old new = s"
proof (induction s)
  case Nil
  then show ?case by (simp add: ReplaceAll.simps)
next
  case (Cons c cs)
  from Cons.prems have "\<not> prefix old (c # cs)" and "\<not> sublist old cs"
    by (auto simp: sublist_Cons_right)
  with Cons show ?case
    by (subst ReplaceAll.simps) simp
qed

lemma ReplaceAll_strips_marker:
  "\<not> sublist ''l;'' s \<Longrightarrow> ReplaceAll (''l;'' @ s) ''l;'' [] = s"
  using ReplaceAll_no_occurrence [of "''l;''" s "[]"]
  by (subst ReplaceAll.simps) simp

lemma secrets_dir_path:
  "filepath_Join [path example_local, ''secrets/'' @ secrets_location example_env example_job]
     = ''/home/u/.dstack/secrets/github.com/u/r''"
  by (simp add: example_local_def New_def example_env_def example_job_def secrets_location_def
        DSTACK_DIR_PATH_def filepath_Join_def filepath_Clean_def Let_def)

lemma dir_entries_record_call [simp]: "dir_entries (record_call c w) p = dir_entries w p"
  by (simp add: dir_entries_def cong: option.case_cong)

lemma fst_os_Stat_record_call [simp]: "fst (os_Stat p (record_call c w)) = fst (os_Stat p w)"
  by (simp add: os_Stat_def split: option.splits)

lemma fst_os_ReadDir_record_call [simp]:
  "fst (os_ReadDir p (record_call c w)) = fst (os_ReadDir p w)"
  by (simp add: os_ReadDir_def split: option.splits node.splits)

lemma snd_os_ReadDir [simp]: "snd (os_ReadDir p w) = record_call (CReadDir p) w"
  by (simp add: os_ReadDir_def)

text \<open>
  Claim C2, on a secret directory whose only entry is the regular file \<open>l;al;b\<close>: the
  mapping that \<open>Secrets\<close> hands to the credential store has the single key \<open>ab\<close>,
  not \<open>al;b\<close>, the name with the leading \<open>l;\<close> stripped.
\<close>

theorem Secrets_removes_inner_marker:
  "fst (os_ReadDir ''/home/u/.dstack/secrets/github.com/u/r'' secrets_world)
     = Inr [\<lparr>Name = ''l;al;b'', IsDir = False\<rparr>]
   \<and> log (snd (Secrets example_env example_local secrets_world))
     = [CStat ''/home/u/.dstack/secrets/github.com/u/r'',
        CReadDir ''/home/u/.dstack/secrets/github.com/u/r'',
        CFetchSecret ''secrets/github.com/u/r'' [''ab'' \<mapsto> ''github.com/u/r/ab'']]
   \<and> dom [''ab'' \<mapsto> ''github.com/u/r/ab''] \<noteq> {''al;b''}"
proof -
  have r: "fst (os_ReadDir ''/home/u/.dstack/secrets/github.com/u/r'' secrets_world)
             = Inr [\<lparr>Name = ''l;al;b'', IsDir = False\<rparr>]"
    by (simp add: os_ReadDir_def dir_entries_def child_name_def lookup_def no_faults_def
          secrets_world_def Let_def)
  have s: "fst (os_Stat ''/home/u/.dstack/secrets/github.com/u/r'' secrets_world) = Inr True"
    by (simp add: os_Stat_def secrets_world_def no_faults_def lookup_def)
  have l: "secrets_location example_env example_job = ''github.com/u/r''"
    by (simp add: secrets_location_def example_env_def example_job_def)
  have st: "state example_local = Some \<lparr>Job = Some example_job\<rparr>"
    by (simp add: example_local_def)
  have f: "fetchSecret example_env = (\<lambda>cs templatePath secrets w. ((Some secrets, None), w))"
    by (simp add: example_env_def)
  have "log (snd (Secrets example_env example_local secrets_world))
     = [CStat ''/home/u/.dstack/secrets/github.com/u/r'',
        CReadDir ''/home/u/.dstack/secrets/github.com/u/r'',
        CFetchSecret ''secrets/github.com/u/r'' [''ab'' \<mapsto> ''github.com/u/r/ab'']]"
  proof -
    have "log secrets_world = []"
      by (simp add: secrets_world_def)
    with secrets_dir_path show ?thesis
      by (simp add: Secrets_def st l Let_def case_prod_unfold s r f HasPrefix_def
            ReplaceAll.simps)
  qed
  with r show ?thesis by simp
qed

subsection \<open>Storage\<close>

text \<open>What the listing of a prefix holds, and what a write and a rename change.\<close>

lemma abs_path_inject [simp]: "abs_path s a = abs_path s b \<longleftrightarrow> a = b"
  by (simp add: abs_path_def)

lemma rel_path_abs: "rel_path s p = Some rel \<longleftrightarrow> p = abs_path s rel"
  by (auto simp: rel_path_def abs_path_def prefix_def)

lemma rel_path_abs': "Some rel = rel_path s p \<longleftrightarrow> p = abs_path s rel"
  using rel_path_abs [of s p rel] by auto

lemma map_of_mkdir_all:
  "map_of (mkdir_all ds al) q =
     (if q \<in> set ds \<and> map_of al q = None then Some Directory else map_of al q)"
  by (induction ds arbitrary: al) (auto simp: update_conv')

lemma parents_from_split:
  "d \<in> set (parents_from pre cs) \<Longrightarrow> \<exists>rest. pre @ cs = d @ CHR ''/'' # rest"
proof (induction cs arbitrary: pre)
  case Nil
  then show ?case by simp
next
  case (Cons c cs)
  show ?case
  proof (cases "d \<in> set (parents_from (pre @ [c]) cs)")
    case True
    from Cons.IH [OF this] show ?thesis by simp
  next
    case False
    with Cons.prems have "d = pre" and "c = CHR ''/''"
      by (auto split: if_splits)
    then show ?thesis by simp
  qed
qed

lemma parents_split: "d \<in> set (parents p) \<Longrightarrow> \<exists>rest. p = d @ CHR ''/'' # rest"
  using parents_from_split [of d "[]" p] by (simp add: parents_def)

lemma abs_path_not_parent:
  assumes "prefix pre rel" and "\<not> prefix pre jp"
  shows "abs_path s rel \<notin> set (parents (abs_path s jp))"
proof
  assume "abs_path s rel \<in> set (parents (abs_path s jp))"
  then obtain rest where "abs_path s jp = abs_path s rel @ CHR ''/'' # rest"
    using parents_split by blast
  then have "jp = rel @ CHR ''/'' # rest"
    by (simp add: abs_path_def)
  then have "prefix rel jp" by simp
  with assms(1) have "prefix pre jp" by (rule prefix_order.trans)
  with assms(2) show False by simp
qed

lemma path_not_own_parent: "p \<notin> set (parents p)"
  using parents_split [of p p] by auto

lemma set_list_regular:
  "set (list_regular s pre w) =
     {rel. prefix pre rel \<and> (\<exists>body. lookup w (abs_path s rel) = Some (Regular body))}"
proof -
  have "rel \<in> set (list_regular s pre w) \<longleftrightarrow>
          prefix pre rel \<and> (\<exists>body. lookup w (abs_path s rel) = Some (Regular body))" for rel
  proof
    assume "rel \<in> set (list_regular s pre w)"
    then obtain p where "p \<in> fst ` set (nodes w)"
      and "rel \<in> set (case (lookup w p, rel_path s p) of
                        (Some (Regular body), Some r) \<Rightarrow> if prefix pre r then [r] else []
                      | _ \<Rightarrow> [])"
      by (auto simp: list_regular_def)
    then show "prefix pre rel \<and> (\<exists>body. lookup w (abs_path s rel) = Some (Regular body))"
      by (auto simp: rel_path_abs rel_path_abs' split: option.splits node.splits if_splits)
        metis
  next
    assume a: "prefix pre rel \<and> (\<exists>body. lookup w (abs_path s rel) = Some (Regular body))"
    then obtain body where b: "map_of (nodes w) (abs_path s rel) = Some (Regular body)"
      by (auto simp: lookup_def)
    then have "(abs_path s rel, Regular body) \<in> set (nodes w)"
      by (rule map_of_SomeD)
    then have "abs_path s rel \<in> fst ` set (nodes w)"
      by force
    moreover have "rel_path s (abs_path s rel) = Some rel"
      by (simp add: rel_path_abs)
    ultimately show "rel \<in> set (list_regular s pre w)"
      using a b by (force simp: list_regular_def lookup_def)
  qed
  then show ?thesis by blast
qed

lemma list_regular_sorted_list:
  "list_regular s pre w = sorted_list_of_set (set (list_regular s pre w))"
proof -
  have "distinct (list_regular s pre w)" and "sorted (list_regular s pre w)"
    by (simp_all add: list_regular_def)
  then show ?thesis
    by (simp add: sorted_list_of_set.idem_if_sorted_distinct)
qed

lemma list_regular_cong:
  assumes "\<And>rel. prefix pre rel \<Longrightarrow>
             (\<exists>body. lookup w' (abs_path s rel) = Some (Regular body))
               \<longleftrightarrow> (\<exists>body. lookup w (abs_path s rel) = Some (Regular body))"
  shows "list_regular s pre w' = list_regular s pre w"
proof -
  have "set (list_regular s pre w') = set (list_regular s pre w)"
    using assms by (auto simp: set_list_regular)
  then show ?thesis
    using list_regular_sorted_list [of s pre w'] list_regular_sorted_list [of s pre w]
    by simp
qed

lemma distinct_list_regular: "distinct (list_regular s pre w)"
  by (simp add: list_regular_def)

lemma list_regular_record_call [simp]:
  "list_regular s pre (record_call c w) = list_regular s pre w"
  by (rule list_regular_cong) simp

lemma PutFile_succeeds:
  "faults w (CPutFile rel body) = None \<Longrightarrow> writable s rel w \<Longrightarrow>
     fst (PutFile s rel body w) = None"
  by (auto simp: PutFile_def writable_def Let_def)

lemma log_PutFile [simp]: "log (snd (PutFile s rel body w)) = log w @ [CPutFile rel body]"
  by (simp add: PutFile_def Let_def split: option.splits)

lemma faults_PutFile [simp]: "faults (snd (PutFile s rel body w)) = faults w"
  by (simp add: PutFile_def Let_def split: option.splits)

lemma lookup_PutFile:
  "fst (PutFile s rel body w) = None \<Longrightarrow>
     lookup (snd (PutFile s rel body w)) q =
       (if q = abs_path s rel then Some (Regular body)
        else if q \<in> set (parents (abs_path s rel)) \<and> lookup w q = None then Some Directory
        else lookup w q)"
  by (auto simp: PutFile_def Let_def lookup_def update_conv' map_of_mkdir_all record_call_def
           split: option.splits if_splits)

lemma fst_ListFile: "faults w (CListFile pre) = None \<Longrightarrow>
    fst (ListFile s pre w) = Inr \<lparr>elems = list_regular s pre w, spare = []\<rparr>"
  by (simp add: ListFile_def)

lemma snd_ListFile [simp]: "snd (ListFile s pre w) = record_call (CListFile pre) w"
  by (simp add: ListFile_def)

lemma log_RenameFile [simp]:
  "log (snd (RenameFile s from to w)) = log w @ [CRenameFile from to]"
  by (simp add: RenameFile_def Let_def split: option.splits node.splits)

lemma faults_RenameFile [simp]: "faults (snd (RenameFile s from to w)) = faults w"
  by (simp add: RenameFile_def Let_def split: option.splits node.splits)

lemma RenameFile_regular:
  assumes "faults w (CRenameFile from to) = None"
    and "lookup w (abs_path s from) = Some (Regular body)"
    and "lookup w (abs_path s to) \<noteq> Some Directory"
  shows "fst (RenameFile s from to w) = None"
    and "lookup (snd (RenameFile s from to w)) q =
           (if q = abs_path s to then Some (Regular body)
            else if q = abs_path s from then None
            else lookup w q)"
  using assms
  by (auto simp: RenameFile_def Let_def lookup_def update_conv' delete_conv' record_call_def)

text \<open>
  A slice of length zero: \<open>files[:1]\<close> panics when there is no spare capacity, and
  otherwise shows the first hidden element, for which the loop then calls
  \<open>RenameFile\<close>.
\<close>

lemma reslice_upto_1_no_elems:
  "elems s = [] \<Longrightarrow>
     (case reslice_upto s 1 of None \<Rightarrow> spare s = [] | Some s' \<Rightarrow> elems s' = [hd (spare s)])"
  by (cases "spare s") (auto simp: reslice_upto_def)

lemma rename_each_single:
  "log (snd (rename_each s [x] hp w)) = log w @ [CRenameFile x hp]"
proof (cases "RenameFile s x hp w")
  case (Pair r w')
  with log_RenameFile [of s x hp w] show ?thesis
    by (cases r) simp_all
qed

lemma rename_after_reslice_of_no_elems:
  assumes "elems files = []" and "reslice_upto files 1 = Some files1"
  shows "log (snd (rename_each s (elems files1) hp w))
           = log w @ [CRenameFile (hd (spare files)) hp]"
proof -
  from assms reslice_upto_1_no_elems [of files]
  have "elems files1 = [hd (spare files)]" by simp
  then show ?thesis by (simp only: rename_each_single)
qed

subsection \<open>UpdateState\<close>

text \<open>
  After a successful write and listing, \<open>UpdateState\<close> panics on an empty listing and
  otherwise renames the first entry.
\<close>

lemma UpdateState_unfold:
  assumes "state l = Some st" and "Job st = Some j" and "yaml_Marshal env j = Inr contents"
    and "fst (PutFile (storage l) (JobFilepath env j) contents w) = None"
    and "faults w (CListFile (JobHeadFilepathPrefix env j)) = None"
  shows "UpdateState env l w =
     (let w1 = snd (PutFile (storage l) (JobFilepath env j) contents w);
          w2 = record_call (CListFile (JobHeadFilepathPrefix env j)) w1
      in case list_regular (storage l) (JobHeadFilepathPrefix env j) w1 of
           [] \<Rightarrow> (Panics SliceBounds, w2)
         | file # rest \<Rightarrow>
             (case RenameFile (storage l) file (JobHeadFilepath env j) w2 of
                (Some err, w3) \<Rightarrow> (Returns (Some (Wrap err)), w3)
              | (None, w3) \<Rightarrow> (Returns None, w3)))"
proof -
  obtain w1 where p: "PutFile (storage l) (JobFilepath env j) contents w = (None, w1)"
    using assms(4) by (cases "PutFile (storage l) (JobFilepath env j) contents w") simp
  have f: "faults w1 (CListFile (JobHeadFilepathPrefix env j)) = None"
    using assms(5) faults_PutFile [of "storage l" "JobFilepath env j" contents w]
    by (simp add: p)
  have li: "ListFile (storage l) (JobHeadFilepathPrefix env j) w1 =
          (Inr \<lparr>elems = list_regular (storage l) (JobHeadFilepathPrefix env j) w1, spare = []\<rparr>,
           record_call (CListFile (JobHeadFilepathPrefix env j)) w1)"
    using f by (simp add: ListFile_def)
  show ?thesis
    using assms(1-3)
    by (cases "list_regular (storage l) (JobHeadFilepathPrefix env j) w1")
       (simp_all add: UpdateState_def p li Let_def reslice_upto_def
          split: prod.splits option.splits)
qed

lemma list_regular_PutFile:
  assumes "fst (PutFile s jp body w) = None" and "\<not> prefix pre jp"
  shows "list_regular s pre (snd (PutFile s jp body w)) = list_regular s pre w"
proof (rule list_regular_cong)
  fix rel
  assume "prefix pre rel"
  with assms(2) have "rel \<noteq> jp" by auto
  then show "(\<exists>b. lookup (snd (PutFile s jp body w)) (abs_path s rel) = Some (Regular b))
               \<longleftrightarrow> (\<exists>b. lookup w (abs_path s rel) = Some (Regular b))"
    by (auto simp: lookup_PutFile [OF assms(1)])
qed

text \<open>
  Claim C1, on the code: when the listing of the head prefix is empty, \<open>UpdateState\<close>
  has written the Job document to its path and made no rename, but it does not return
  success: the slice expression \<open>files[:1]\<close> panics.
\<close>

theorem UpdateState_no_head_file_panics:
  assumes "state l = Some st" and "Job st = Some j" and "yaml_Marshal env j = Inr contents"
    and "fst (PutFile (storage l) (JobFilepath env j) contents w) = None"
    and "faults w (CListFile (JobHeadFilepathPrefix env j)) = None"
    and "list_regular (storage l) (JobHeadFilepathPrefix env j)
           (snd (PutFile (storage l) (JobFilepath env j) contents w)) = []"
  shows "fst (UpdateState env l w) = Panics SliceBounds
       \<and> log (snd (UpdateState env l w))
           = log w @ [CPutFile (JobFilepath env j) contents,
                      CListFile (JobHeadFilepathPrefix env j)]
       \<and> lookup (snd (UpdateState env l w)) (abs_path (storage l) (JobFilepath env j))
           = Some (Regular contents)"
  using assms(6) lookup_PutFile [OF assms(4)]
  by (simp add: UpdateState_unfold [OF assms(1-5)] Let_def)

lemma example_job_paths:
  "JobFilepath example_env example_job = ''jobs/u/r/J1.yaml''"
  "JobHeadFilepathPrefix example_env example_job = ''jobs/u/r/l;J1;''"
  "JobHeadFilepath example_env example_job = ''jobs/u/r/l;J1;running''"
  "yaml_Marshal example_env example_job = Inr ''job_id: J1 status: running''"
  by (simp_all add: example_env_def example_job_def)

theorem UpdateState_no_head_file_panics_witness:
  "list_regular (storage example_local) ''jobs/u/r/l;J1;'' empty_world = []
   \<and> fst (UpdateState example_env example_local empty_world) = Panics SliceBounds
   \<and> log (snd (UpdateState example_env example_local empty_world))
       = [CPutFile ''jobs/u/r/J1.yaml'' ''job_id: J1 status: running'',
          CListFile ''jobs/u/r/l;J1;'']"
proof -
  have s: "state example_local = Some \<lparr>Job = Some example_job\<rparr>"
    by (simp add: example_local_def)
  have j: "Job \<lparr>Job = Some example_job\<rparr> = Some example_job"
    by simp
  have p: "fst (PutFile (storage example_local) (JobFilepath example_env example_job)
                  ''job_id: J1 status: running'' empty_world) = None"
    by (rule PutFile_succeeds)
       (simp_all add: writable_def lookup_def empty_world_def no_faults_def)
  have f: "faults empty_world (CListFile (JobHeadFilepathPrefix example_env example_job)) = None"
    by (simp add: empty_world_def no_faults_def)
  have e: "list_regular (storage example_local) ''jobs/u/r/l;J1;'' empty_world = []"
    by (simp add: list_regular_def empty_world_def)
  have n: "list_regular (storage example_local) (JobHeadFilepathPrefix example_env example_job)
            (snd (PutFile (storage example_local) (JobFilepath example_env example_job)
                    ''job_id: J1 status: running'' empty_world)) = []"
    using list_regular_PutFile [OF p, of "''jobs/u/r/l;J1;''"] e
    by (simp add: example_job_paths)
  have "log empty_world = []"
    by (simp add: empty_world_def)
  with UpdateState_no_head_file_panics [OF s j example_job_paths(4) p f n] e
  show ?thesis
    by (simp add: example_job_paths)
qed

text \<open>
  One call of \<open>UpdateState\<close> on a listing that is not empty: the calls it makes, and
  what is at every path afterwards.
\<close>

lemma UpdateState_step:
  assumes st: "state l = Some st" "Job st = Some j" "yaml_Marshal env j = Inr contents"
    and q: "quiet w"
    and wr: "writable (storage l) (JobFilepath env j) w"
    and hc: "heads_clear (storage l) (JobHeadFilepathPrefix env j) w"
    and np: "\<not> prefix (JobHeadFilepathPrefix env j) (JobFilepath env j)"
    and hp: "prefix (JobHeadFilepathPrefix env j) (JobHeadFilepath env j)"
    and li: "list_regular (storage l) (JobHeadFilepathPrefix env j) w = file # rest"
  shows "fst (UpdateState env l w) = Returns None"
    and "log (snd (UpdateState env l w))
           = log w @ [CPutFile (JobFilepath env j) contents,
                      CListFile (JobHeadFilepathPrefix env j),
                      CRenameFile file (JobHeadFilepath env j)]"
    and "faults (snd (UpdateState env l w)) = faults w"
    and "lookup (snd (UpdateState env l w)) p =
           (if p = abs_path (storage l) (JobHeadFilepath env j)
              then lookup w (abs_path (storage l) file)
            else if p = abs_path (storage l) file then None
            else if p = abs_path (storage l) (JobFilepath env j) then Some (Regular contents)
            else if p \<in> set (parents (abs_path (storage l) (JobFilepath env j)))
                    \<and> lookup w p = None then Some Directory
            else lookup w p)"
proof -
  let ?s = "storage l" and ?jp = "JobFilepath env j" and ?pre = "JobHeadFilepathPrefix env j"
    and ?hp = "JobHeadFilepath env j"
  let ?w1 = "snd (PutFile ?s ?jp contents w)"
  let ?w2 = "record_call (CListFile ?pre) ?w1"
  let ?w3 = "snd (RenameFile ?s file ?hp ?w2)"
  from q have nf: "faults w c = None" for c
    by (simp add: quiet_def)
  have put: "fst (PutFile ?s ?jp contents w) = None"
    using nf wr by (rule PutFile_succeeds)
  have l1: "list_regular ?s ?pre ?w1 = file # rest"
    using list_regular_PutFile [OF put np] li by simp
  have "file \<in> set (list_regular ?s ?pre w)"
    by (simp add: li)
  then obtain body where pf: "prefix ?pre file"
    and lf: "lookup w (abs_path ?s file) = Some (Regular body)"
    by (auto simp: set_list_regular)
  from pf np have fj: "file \<noteq> ?jp" by auto
  from hp np have hj: "?hp \<noteq> ?jp" by auto
  have hpar: "abs_path ?s ?hp \<notin> set (parents (abs_path ?s ?jp))"
    using hp np by (rule abs_path_not_parent)
  have lf2: "lookup ?w2 (abs_path ?s file) = Some (Regular body)"
    using fj lf by (simp add: lookup_PutFile [OF put])
  have lh2: "lookup ?w2 (abs_path ?s ?hp) \<noteq> Some Directory"
    using hj hpar hc hp by (simp add: lookup_PutFile [OF put] heads_clear_def)
  have f2: "faults ?w2 (CRenameFile file ?hp) = None"
    by (simp add: nf)
  note rn = RenameFile_regular [OF f2 lf2 lh2]
  have u: "UpdateState env l w = (Returns None, ?w3)"
    using rn(1)
    by (cases "RenameFile ?s file ?hp ?w2")
       (simp add: UpdateState_unfold [OF st put nf] Let_def l1)
  show "fst (UpdateState env l w) = Returns None"
    by (simp add: u)
  show "log (snd (UpdateState env l w))
           = log w @ [CPutFile ?jp contents, CListFile ?pre, CRenameFile file ?hp]"
    by (simp add: u)
  show "faults (snd (UpdateState env l w)) = faults w"
    by (simp add: u)
  show "lookup (snd (UpdateState env l w)) p =
           (if p = abs_path ?s ?hp then lookup w (abs_path ?s file)
            else if p = abs_path ?s file then None
            else if p = abs_path ?s ?jp then Some (Regular contents)
            else if p \<in> set (parents (abs_path ?s ?jp)) \<and> lookup w p = None
              then Some Directory
            else lookup w p)"
    using lf by (simp add: u rn(2) lookup_PutFile [OF put])
qed

lemma UpdateState_step_invariants:
  assumes st: "state l = Some st" "Job st = Some j" "yaml_Marshal env j = Inr contents"
    and q: "quiet w"
    and wr: "writable (storage l) (JobFilepath env j) w"
    and hc: "heads_clear (storage l) (JobHeadFilepathPrefix env j) w"
    and np: "\<not> prefix (JobHeadFilepathPrefix env j) (JobFilepath env j)"
    and hp: "prefix (JobHeadFilepathPrefix env j) (JobHeadFilepath env j)"
    and li: "list_regular (storage l) (JobHeadFilepathPrefix env j) w = file # rest"
  shows "quiet (snd (UpdateState env l w))"
    and "writable (storage l) (JobFilepath env j) (snd (UpdateState env l w))"
    and "heads_clear (storage l) (JobHeadFilepathPrefix env j) (snd (UpdateState env l w))"
    and "set (list_regular (storage l) (JobHeadFilepathPrefix env j) (snd (UpdateState env l w)))
           = insert (JobHeadFilepath env j) (set rest)"
proof -
  let ?s = "storage l" and ?jp = "JobFilepath env j" and ?pre = "JobHeadFilepathPrefix env j"
    and ?hp = "JobHeadFilepath env j"
  let ?w' = "snd (UpdateState env l w)"
  note step = UpdateState_step [OF st q wr hc np hp li]
  have "file \<in> set (list_regular ?s ?pre w)"
    by (simp add: li)
  then obtain body where pf: "prefix ?pre file"
    and lf: "lookup w (abs_path ?s file) = Some (Regular body)"
    by (auto simp: set_list_regular)
  have fr: "file \<notin> set rest"
    using distinct_list_regular [of ?s ?pre w] by (simp add: li)
  have par: "abs_path ?s rel \<notin> set (parents (abs_path ?s ?jp))" if "prefix ?pre rel" for rel
    using that np by (rule abs_path_not_parent)
  have neq: "rel \<noteq> ?jp" if "prefix ?pre rel" for rel
    using that np by auto
  show "quiet ?w'"
    using q by (simp add: quiet_def step(3))
  show "writable ?s ?jp ?w'"
    unfolding writable_def
  proof (intro conjI ballI allI)
    show "lookup ?w' (abs_path ?s ?jp) \<noteq> Some Directory"
      using neq [OF hp] neq [OF pf] by (simp add: step(4))
  next
    fix d c
    assume d: "d \<in> set (parents (abs_path ?s ?jp))"
    then have "d \<noteq> abs_path ?s ?hp" and "d \<noteq> abs_path ?s file"
      and "d \<noteq> abs_path ?s ?jp"
      using par [OF hp] par [OF pf] path_not_own_parent by auto
    then show "lookup ?w' d \<noteq> Some (Regular c)"
      using wr d by (simp add: step(4) writable_def)
  qed
  show "heads_clear ?s ?pre ?w'"
    unfolding heads_clear_def
  proof (intro allI impI)
    fix rel
    assume p: "prefix ?pre rel"
    show "lookup ?w' (abs_path ?s rel) \<noteq> Some Directory"
      using neq [OF p] par [OF p] hc p lf by (simp add: step(4) heads_clear_def)
  qed
  have "rel \<in> set (list_regular ?s ?pre ?w') \<longleftrightarrow> rel = ?hp \<or> rel \<in> set rest" for rel
  proof (cases "prefix ?pre rel")
    case False
    moreover have "rel \<noteq> ?hp" using False hp by auto
    moreover have "rel \<notin> set rest"
    proof
      assume "rel \<in> set rest"
      then have "rel \<in> set (list_regular ?s ?pre w)" by (simp add: li)
      with False show False by (simp add: set_list_regular)
    qed
    ultimately show ?thesis by (simp add: set_list_regular)
  next
    case True
    have old: "rel \<in> set (file # rest) \<longleftrightarrow> (\<exists>b. lookup w (abs_path ?s rel) = Some (Regular b))"
      using True set_list_regular [of ?s ?pre w] by (auto simp: li)
    show ?thesis
    proof (cases "rel = ?hp")
      case True
      then show ?thesis using hp lf by (simp add: set_list_regular step(4))
    next
      case nh: False
      show ?thesis
      proof (cases "rel = file")
        case True
        then show ?thesis using nh fr by (simp add: set_list_regular step(4))
      next
        case False
        then show ?thesis
          using nh True neq [OF True] par [OF True] old
          by (simp add: set_list_regular step(4))
      qed
    qed
  qed
  then show "set (list_regular ?s ?pre ?w') = insert ?hp (set rest)"
    by auto
qed

lemma UpdateState_step_single:
  assumes "state l = Some st" "Job st = Some j" "yaml_Marshal env j = Inr contents"
    and "quiet w"
    and "writable (storage l) (JobFilepath env j) w"
    and "heads_clear (storage l) (JobHeadFilepathPrefix env j) w"
    and "\<not> prefix (JobHeadFilepathPrefix env j) (JobFilepath env j)"
    and "prefix (JobHeadFilepathPrefix env j) (JobHeadFilepath env j)"
    and "list_regular (storage l) (JobHeadFilepathPrefix env j) w = [file]"
  shows "list_regular (storage l) (JobHeadFilepathPrefix env j) (snd (UpdateState env l w))
           = [JobHeadFilepath env j]"
  using UpdateState_step_invariants(4) [OF assms]
    list_regular_sorted_list [of "storage l" "JobHeadFilepathPrefix env j"
                                 "snd (UpdateState env l w)"]
  by simp

lemma UpdateState_each_single_head:
  assumes "quiet w" and "writable (storage l) jp w" and "heads_clear (storage l) pre w"
    and "\<not> prefix pre jp"
    and "list_regular (storage l) pre w = [file]"
    and "\<forall>j \<in> set js. JobFilepath env j = jp \<and> JobHeadFilepathPrefix env j = pre
            \<and> prefix pre (JobHeadFilepath env j) \<and> (\<exists>c. yaml_Marshal env j = Inr c)"
  shows "fst (UpdateState_each env l js w) = Returns None
       \<and> list_regular (storage l) pre (snd (UpdateState_each env l js w))
           = [if js = [] then file else JobHeadFilepath env (last js)]"
  using assms
proof (induction js arbitrary: w "file")
  case Nil
  then show ?case by simp
next
  case (Cons j js)
  let ?l = "l\<lparr>state := Some \<lparr>Job = Some j\<rparr>\<rparr>"
  from Cons.prems(6) obtain c where j: "JobFilepath env j = jp"
    "JobHeadFilepathPrefix env j = pre" "prefix pre (JobHeadFilepath env j)"
    "yaml_Marshal env j = Inr c"
    by auto
  have st: "state ?l = Some \<lparr>Job = Some j\<rparr>" "Job \<lparr>Job = Some j\<rparr> = Some j"
    by simp_all
  have a: "quiet w" "writable (storage ?l) (JobFilepath env j) w"
    "heads_clear (storage ?l) (JobHeadFilepathPrefix env j) w"
    "\<not> prefix (JobHeadFilepathPrefix env j) (JobFilepath env j)"
    "prefix (JobHeadFilepathPrefix env j) (JobHeadFilepath env j)"
    "list_regular (storage ?l) (JobHeadFilepathPrefix env j) w = [file]"
    using Cons.prems(1-5) j by simp_all
  let ?w' = "snd (UpdateState env ?l w)"
  have r: "fst (UpdateState env ?l w) = Returns None"
    by (rule UpdateState_step(1) [OF st j(4) a])
  then have u: "UpdateState_each env l (j # js) w = UpdateState_each env l js ?w'"
    by (simp add: case_prod_unfold)
  have inv: "quiet ?w'" "writable (storage l) jp ?w'" "heads_clear (storage l) pre ?w'"
    using UpdateState_step_invariants(1-3) [OF st j(4) a] j by simp_all
  have one: "list_regular (storage l) pre ?w' = [JobHeadFilepath env j]"
    using UpdateState_step_single [OF st j(4) a] j by simp
  have rest: "\<forall>j \<in> set js. JobFilepath env j = jp \<and> JobHeadFilepathPrefix env j = pre
            \<and> prefix pre (JobHeadFilepath env j) \<and> (\<exists>c. yaml_Marshal env j = Inr c)"
    using Cons.prems(6) by simp
  from Cons.IH [OF inv Cons.prems(4) one rest] show ?case
    unfolding u by (cases "js = []") simp_all
qed

text \<open>The example worlds meet the conditions.\<close>

lemma example_storage: "storage example_local = \<lparr>basepath = ''/home/u/.dstack''\<rparr>"
  by (simp add: example_local_def New_def example_env_def DSTACK_DIR_PATH_def
        NewLocalStorage_def filepath_Join_def filepath_Clean_def Let_def)

lemma example_state:
  "state example_local = Some \<lparr>Job = Some example_job\<rparr>"
  "Job \<lparr>Job = Some example_job\<rparr> = Some example_job"
  by (simp_all add: example_local_def)

lemma example_done_job_paths:
  "JobFilepath example_env example_done_job = ''jobs/u/r/J1.yaml''"
  "JobHeadFilepathPrefix example_env example_done_job = ''jobs/u/r/l;J1;''"
  "JobHeadFilepath example_env example_done_job = ''jobs/u/r/l;J1;done''"
  "yaml_Marshal example_env example_done_job = Inr ''job_id: J1 status: done''"
  by (simp_all add: example_env_def example_job_def example_done_job_def)

lemma single_head_world_ready:
  "quiet single_head_world"
  "writable (storage example_local) ''jobs/u/r/J1.yaml'' single_head_world"
  "heads_clear (storage example_local) ''jobs/u/r/l;J1;'' single_head_world"
  "list_regular (storage example_local) ''jobs/u/r/l;J1;'' single_head_world
     = [''jobs/u/r/l;J1;pending'']"
  by (simp_all add: quiet_def writable_def heads_clear_def list_regular_def rel_path_def
        abs_path_def parents_def lookup_def example_storage single_head_world_def
        no_faults_def)

lemma two_heads_world_ready:
  "quiet two_heads_world"
  "writable (storage example_local) ''jobs/u/r/J1.yaml'' two_heads_world"
  "heads_clear (storage example_local) ''jobs/u/r/l;J1;'' two_heads_world"
  "list_regular (storage example_local) ''jobs/u/r/l;J1;'' two_heads_world
     = [''jobs/u/r/l;J1;pending'', ''jobs/u/r/l;J1;running'']"
  by (simp_all add: quiet_def writable_def heads_clear_def list_regular_def rel_path_def
        abs_path_def parents_def lookup_def example_storage two_heads_world_def
        no_faults_def)

lemma stale_head_world_ready:
  "quiet stale_head_world"
  "writable (storage example_local) ''jobs/u/r/J1.yaml'' stale_head_world"
  "heads_clear (storage example_local) ''jobs/u/r/l;J1;'' stale_head_world"
  "list_regular (storage example_local) ''jobs/u/r/l;J1;'' stale_head_world
     = [''jobs/u/r/l;J1;pending'', ''jobs/u/r/l;J1;submitted'']"
  by (simp_all add: quiet_def writable_def heads_clear_def list_regular_def rel_path_def
        abs_path_def parents_def lookup_def example_storage stale_head_world_def
        no_faults_def)

text \<open>
  Claim C4. In a world where nothing fails (\<open>quiet\<close>, \<open>writable\<close>, \<open>heads_clear\<close>)
  and where the Job document is not itself under the head prefix while the head file name
  is, a call of \<open>UpdateState\<close> on a single head file writes the document, then lists,
  then renames that file to the head name of the current Job, returns nil, and leaves
  exactly that one head file. Any finite sequence of such calls, for Jobs with the same
  document path and head prefix, returns nil throughout and ends with exactly one head
  file, named after the last Job.
\<close>

theorem UpdateState_keeps_single_head_file:
  assumes "quiet w" and "writable (storage l) jp w" and "heads_clear (storage l) pre w"
    and "\<not> prefix pre jp"
    and "list_regular (storage l) pre w = [file]"
    and "\<forall>j \<in> set (j # js). JobFilepath env j = jp \<and> JobHeadFilepathPrefix env j = pre
            \<and> prefix pre (JobHeadFilepath env j) \<and> (\<exists>c. yaml_Marshal env j = Inr c)"
    and "yaml_Marshal env j = Inr contents"
  shows "fst (UpdateState env (l\<lparr>state := Some \<lparr>Job = Some j\<rparr>\<rparr>) w) = Returns None
       \<and> log (snd (UpdateState env (l\<lparr>state := Some \<lparr>Job = Some j\<rparr>\<rparr>) w))
           = log w @ [CPutFile jp contents, CListFile pre,
                      CRenameFile file (JobHeadFilepath env j)]
       \<and> lookup (snd (UpdateState env (l\<lparr>state := Some \<lparr>Job = Some j\<rparr>\<rparr>) w))
             (abs_path (storage l) jp) = Some (Regular contents)
       \<and> list_regular (storage l) pre
             (snd (UpdateState env (l\<lparr>state := Some \<lparr>Job = Some j\<rparr>\<rparr>) w))
           = [JobHeadFilepath env j]
       \<and> fst (UpdateState_each env l (j # js) w) = Returns None
       \<and> list_regular (storage l) pre (snd (UpdateState_each env l (j # js) w))
           = [JobHeadFilepath env (last (j # js))]"
proof -
  let ?l = "l\<lparr>state := Some \<lparr>Job = Some j\<rparr>\<rparr>"
  from assms(6) have j: "JobFilepath env j = jp" "JobHeadFilepathPrefix env j = pre"
    "prefix pre (JobHeadFilepath env j)"
    by auto
  have st: "state ?l = Some \<lparr>Job = Some j\<rparr>" "Job \<lparr>Job = Some j\<rparr> = Some j"
    by simp_all
  have a: "quiet w" "writable (storage ?l) (JobFilepath env j) w"
    "heads_clear (storage ?l) (JobHeadFilepathPrefix env j) w"
    "\<not> prefix (JobHeadFilepathPrefix env j) (JobFilepath env j)"
    "prefix (JobHeadFilepathPrefix env j) (JobHeadFilepath env j)"
    "list_regular (storage ?l) (JobHeadFilepathPrefix env j) w = [file]"
    using assms(1-5) j by simp_all
  note step = UpdateState_step [OF st assms(7) a]
  have ne: "jp \<noteq> JobHeadFilepath env j" "jp \<noteq> file"
  proof -
    show "jp \<noteq> JobHeadFilepath env j" using j(3) assms(4) by auto
    have "file \<in> set (list_regular (storage l) pre w)" by (simp add: assms(5))
    then have "prefix pre file" by (simp add: set_list_regular)
    with assms(4) show "jp \<noteq> file" by auto
  qed
  have "lookup (snd (UpdateState env ?l w)) (abs_path (storage l) jp) = Some (Regular contents)"
    using ne j by (simp add: step(4))
  moreover have "list_regular (storage l) pre (snd (UpdateState env ?l w))
                   = [JobHeadFilepath env j]"
    using UpdateState_step_single [OF st assms(7) a] j by simp
  moreover note UpdateState_each_single_head [OF assms(1-6)]
  ultimately show ?thesis
    using step(1,2) j by simp
qed

theorem UpdateState_keeps_single_head_file_witness:
  "list_regular (storage example_local) ''jobs/u/r/l;J1;'' single_head_world
     = [''jobs/u/r/l;J1;pending'']
   \<and> fst (UpdateState_each example_env example_local [example_job, example_done_job]
            single_head_world) = Returns None
   \<and> list_regular (storage example_local) ''jobs/u/r/l;J1;''
        (snd (UpdateState_each example_env example_local [example_job, example_done_job]
                single_head_world))
     = [''jobs/u/r/l;J1;done'']"
proof -
  have np: "\<not> prefix ''jobs/u/r/l;J1;'' ''jobs/u/r/J1.yaml''"
    by simp
  have js: "\<forall>j \<in> set [example_job, example_done_job].
              JobFilepath example_env j = ''jobs/u/r/J1.yaml''
              \<and> JobHeadFilepathPrefix example_env j = ''jobs/u/r/l;J1;''
              \<and> prefix ''jobs/u/r/l;J1;'' (JobHeadFilepath example_env j)
              \<and> (\<exists>c. yaml_Marshal example_env j = Inr c)"
    by (simp add: example_job_paths example_done_job_paths)
  from UpdateState_keeps_single_head_file
         [OF single_head_world_ready(1-3) np single_head_world_ready(4) js
             example_job_paths(4)]
  show ?thesis
    by (simp add: example_done_job_paths single_head_world_ready(4))
qed

text \<open>
  Claim C5, as stated, fails: with the head files \<open>l;J1;pending\<close> and
  \<open>l;J1;running\<close> and a Job whose head name is \<open>l;J1;running\<close>, the rename of the
  first entry replaces the second one, whose contents change from \<open>r\<close> to \<open>p\<close>;
  of the two head files one is left.
\<close>

theorem UpdateState_replaces_other_head_file:
  "list_regular (storage example_local) ''jobs/u/r/l;J1;'' two_heads_world
     = [''jobs/u/r/l;J1;pending'', ''jobs/u/r/l;J1;running'']
   \<and> JobHeadFilepath example_env example_job = ''jobs/u/r/l;J1;running''
   \<and> fst (UpdateState example_env example_local two_heads_world) = Returns None
   \<and> lookup two_heads_world (abs_path (storage example_local) ''jobs/u/r/l;J1;running'')
       = Some (Regular ''r'')
   \<and> lookup (snd (UpdateState example_env example_local two_heads_world))
        (abs_path (storage example_local) ''jobs/u/r/l;J1;running'')
       = Some (Regular ''p'')
   \<and> list_regular (storage example_local) ''jobs/u/r/l;J1;''
        (snd (UpdateState example_env example_local two_heads_world))
       = [''jobs/u/r/l;J1;running'']"
proof -
  have a: "writable (storage example_local) (JobFilepath example_env example_job)
             two_heads_world"
    "heads_clear (storage example_local) (JobHeadFilepathPrefix example_env example_job)
       two_heads_world"
    "\<not> prefix (JobHeadFilepathPrefix example_env example_job)
         (JobFilepath example_env example_job)"
    "prefix (JobHeadFilepathPrefix example_env example_job)
       (JobHeadFilepath example_env example_job)"
    "list_regular (storage example_local) (JobHeadFilepathPrefix example_env example_job)
       two_heads_world = [''jobs/u/r/l;J1;pending'', ''jobs/u/r/l;J1;running'']"
    using two_heads_world_ready by (simp_all add: example_job_paths)
  note step = UpdateState_step [OF example_state example_job_paths(4)
                two_heads_world_ready(1) a]
  have l: "lookup two_heads_world (abs_path (storage example_local) ''jobs/u/r/l;J1;running'')
             = Some (Regular ''r'')"
    "lookup two_heads_world (abs_path (storage example_local) ''jobs/u/r/l;J1;pending'')
             = Some (Regular ''p'')"
    by (simp_all add: lookup_def two_heads_world_def abs_path_def example_storage)
  have "set (list_regular (storage example_local) ''jobs/u/r/l;J1;''
               (snd (UpdateState example_env example_local two_heads_world)))
          = {''jobs/u/r/l;J1;running''}"
    using UpdateState_step_invariants(4) [OF example_state example_job_paths(4)
            two_heads_world_ready(1) a]
    by (simp add: example_job_paths)
  then have after: "list_regular (storage example_local) ''jobs/u/r/l;J1;''
                      (snd (UpdateState example_env example_local two_heads_world))
                    = [''jobs/u/r/l;J1;running'']"
    using list_regular_sorted_list [of "storage example_local" "''jobs/u/r/l;J1;''"
            "snd (UpdateState example_env example_local two_heads_world)"]
    by simp
  show ?thesis
    using step(1) l two_heads_world_ready(4) after
    by (simp add: step(4) example_job_paths)
qed

text \<open>
  Claim C5, amended. On a listing of two or more entries, in a world where nothing
  fails, \<open>UpdateState\<close> makes one rename, of the first entry to the new head name;
  every other entry whose name is not the new head name is left as it was.
\<close>

theorem UpdateState_renames_first_only:
  assumes "state l = Some st" and "Job st = Some j" and "yaml_Marshal env j = Inr contents"
    and "quiet w"
    and "writable (storage l) (JobFilepath env j) w"
    and "heads_clear (storage l) (JobHeadFilepathPrefix env j) w"
    and "\<not> prefix (JobHeadFilepathPrefix env j) (JobFilepath env j)"
    and "prefix (JobHeadFilepathPrefix env j) (JobHeadFilepath env j)"
    and "list_regular (storage l) (JobHeadFilepathPrefix env j) w = file # other # rest"
  shows "fst (UpdateState env l w) = Returns None
       \<and> log (snd (UpdateState env l w))
           = log w @ [CPutFile (JobFilepath env j) contents,
                      CListFile (JobHeadFilepathPrefix env j),
                      CRenameFile file (JobHeadFilepath env j)]
       \<and> lookup (snd (UpdateState env l w)) (abs_path (storage l) (JobHeadFilepath env j))
           = lookup w (abs_path (storage l) file)
       \<and> (file \<noteq> JobHeadFilepath env j \<longrightarrow>
            lookup (snd (UpdateState env l w)) (abs_path (storage l) file) = None)
       \<and> (\<forall>e \<in> set (other # rest). e \<noteq> JobHeadFilepath env j \<longrightarrow>
            lookup (snd (UpdateState env l w)) (abs_path (storage l) e)
              = lookup w (abs_path (storage l) e))"
proof -
  let ?s = "storage l" and ?jp = "JobFilepath env j" and ?pre = "JobHeadFilepathPrefix env j"
    and ?hp = "JobHeadFilepath env j"
  note step = UpdateState_step [OF assms]
  have others: "lookup (snd (UpdateState env l w)) (abs_path ?s e) = lookup w (abs_path ?s e)"
    if e: "e \<in> set (other # rest)" "e \<noteq> ?hp" for e
  proof -
    have "e \<in> set (list_regular ?s ?pre w)"
      using e(1) by (simp add: assms(9))
    then obtain b where pe: "prefix ?pre e" and le: "lookup w (abs_path ?s e) = Some (Regular b)"
      by (auto simp: set_list_regular)
    have "e \<noteq> file"
      using distinct_list_regular [of ?s ?pre w] e(1) by (auto simp: assms(9))
    moreover have "e \<noteq> ?jp" using pe assms(7) by auto
    ultimately show ?thesis
      using e(2) le by (simp add: step(4))
  qed
  show ?thesis
    using step(1,2) others by (simp add: step(4))
qed

theorem UpdateState_renames_first_only_witness:
  "list_regular (storage example_local) ''jobs/u/r/l;J1;'' stale_head_world
     = [''jobs/u/r/l;J1;pending'', ''jobs/u/r/l;J1;submitted'']
   \<and> fst (UpdateState example_env example_local stale_head_world) = Returns None
   \<and> log (snd (UpdateState example_env example_local stale_head_world))
       = [CPutFile ''jobs/u/r/J1.yaml'' ''job_id: J1 status: running'',
          CListFile ''jobs/u/r/l;J1;'',
          CRenameFile ''jobs/u/r/l;J1;pending'' ''jobs/u/r/l;J1;running'']
   \<and> lookup (snd (UpdateState example_env example_local stale_head_world))
        (abs_path (storage example_local) ''jobs/u/r/l;J1;running'') = Some (Regular ''p'')
   \<and> lookup (snd (UpdateState example_env example_local stale_head_world))
        (abs_path (storage example_local) ''jobs/u/r/l;J1;pending'') = None
   \<and> lookup (snd (UpdateState example_env example_local stale_head_world))
        (abs_path (storage example_local) ''jobs/u/r/l;J1;submitted'') = Some (Regular ''s'')"
proof -
  have a: "writable (storage example_local) (JobFilepath example_env example_job)
             stale_head_world"
    "heads_clear (storage example_local) (JobHeadFilepathPrefix example_env example_job)
       stale_head_world"
    "\<not> prefix (JobHeadFilepathPrefix example_env example_job)
         (JobFilepath example_env example_job)"
    "prefix (JobHeadFilepathPrefix example_env example_job)
       (JobHeadFilepath example_env example_job)"
    "list_regular (storage example_local) (JobHeadFilepathPrefix example_env example_job)
       stale_head_world = [''jobs/u/r/l;J1;pending'', ''jobs/u/r/l;J1;submitted'']"
    using stale_head_world_ready by (simp_all add: example_job_paths)
  have l: "lookup stale_head_world (abs_path (storage example_local) ''jobs/u/r/l;J1;submitted'')
             = Some (Regular ''s'')"
    "lookup stale_head_world (abs_path (storage example_local) ''jobs/u/r/l;J1;pending'')
             = Some (Regular ''p'')"
    "log stale_head_world = []"
    by (simp_all add: lookup_def stale_head_world_def abs_path_def example_storage)
  from UpdateState_renames_first_only
         [OF example_state example_job_paths(4) stale_head_world_ready(1) a]
  show ?thesis
    using l stale_head_world_ready(4)
    by (simp add: example_job_paths)
qed

end
